theory Spec2Isabelle
  imports Main "HOL-Library.Sublist" "HOL-Library.Multiset" "HOL-Library.AList"
    "HOL-Library.Char_ord" "HOL-Library.List_Lexorder"
begin

section \<open>Kubernetes objects, as main.go reads and builds them\<close>

text \<open>
  Only the fields that main.go touches are kept: the name, the namespace and the labels of
  \<^verbatim>\<open>metav1.ObjectMeta\<close>, and the containers (name and image) of \<^verbatim>\<open>v1.PodSpec\<close>.
  A Go \<^verbatim>\<open>map[string]string\<close> of labels is an association list; the nil map is \<open>[]\<close>.
\<close>

record ObjectMeta =
  meta_Name :: string
  meta_Namespace :: string
  meta_Labels :: "(string \<times> string) list"

record v1_Container =
  container_Name :: string
  container_Image :: string

record v1_PodSpec =
  Containers :: "v1_Container list"

record v1_Pod =
  pod_ObjectMeta :: ObjectMeta
  pod_Spec :: v1_PodSpec

record v1_Namespace =
  ns_ObjectMeta :: ObjectMeta

text \<open>\<^verbatim>\<open>const namespaceName = "aerospike"\<close>\<close>

definition namespaceName :: string where
  "namespaceName = ''aerospike''"

text \<open>\<^verbatim>\<open>type SimplePod struct { Name string; Namespace string }\<close>\<close>

record SimplePod =
  Name :: string
  Namespace :: string

definition SimplePodFromPod :: "v1_Pod \<Rightarrow> SimplePod" where
  "SimplePodFromPod pod =
     \<lparr>Name = meta_Name (pod_ObjectMeta pod), Namespace = meta_Namespace (pod_ObjectMeta pod)\<rparr>"

section \<open>Errors and log lines\<close>

text \<open>
  A Go \<^verbatim>\<open>error\<close> is a value. The API errors the cluster client can answer with are the
  reasons the specification names, with a catch-all; \<open>Errorf prefix cause\<close> is
  \<^verbatim>\<open>fmt.Errorf("prefix: %w", cause)\<close>, the prefix already formatted.
\<close>

datatype error =
    NotFound
  | AlreadyExists
  | Unavailable
  | Other string
  | Errorf string error

fun Unwrap :: "error \<Rightarrow> error option" where
  "Unwrap (Errorf _ cause) = Some cause"
| "Unwrap _ = None"

text \<open>
  A zerolog event: the level, the fields attached with \<^verbatim>\<open>Interface\<close> or \<^verbatim>\<open>Err\<close>, and the
  message. \<^verbatim>\<open>log.Fatal()\<close> writes its line and then ends the process with status 1.
\<close>

datatype log_field =
    Strings "string list"
  | SimplePods "SimplePod list"
  | OnePod SimplePod
  | Err error

datatype log_line =
    Info "(string \<times> log_field) list" string
  | Fatal "(string \<times> log_field) list" string

section \<open>The cluster client\<close>

text \<open>
  \<^verbatim>\<open>Run\<close> and \<^verbatim>\<open>Cleanup\<close> take the client as a parameter (\<^verbatim>\<open>clientset kubernetes.Interface\<close>),
  and so does the model: a record of the six calls they make, each a function from the
  state of the world behind the client to its answer and the state afterwards.
  \<open>Pods_List ns selector\<close> is \<^verbatim>\<open>CoreV1().Pods(ns).List(ctx, ListOptions{LabelSelector: selector})\<close>.
\<close>

record 's clientset =
  Namespaces_List :: "'s \<Rightarrow> (error + v1_Namespace list) \<times> 's"
  Namespaces_Create :: "v1_Namespace \<Rightarrow> 's \<Rightarrow> (error + v1_Namespace) \<times> 's"
  Namespaces_Delete :: "string \<Rightarrow> 's \<Rightarrow> error option \<times> 's"
  Pods_Create :: "string \<Rightarrow> v1_Pod \<Rightarrow> 's \<Rightarrow> (error + v1_Pod) \<times> 's"
  Pods_List :: "string \<Rightarrow> string \<Rightarrow> 's \<Rightarrow> (error + v1_Pod list) \<times> 's"
  Pods_Delete :: "string \<Rightarrow> string \<Rightarrow> 's \<Rightarrow> error option \<times> 's"

section \<open>Run and Cleanup\<close>

text \<open>The objects \<^verbatim>\<open>Run\<close> builds: \<^verbatim>\<open>nsSpec\<close> (line 83) and \<^verbatim>\<open>podSpec\<close> (line 93).\<close>

definition nsSpec :: v1_Namespace where
  "nsSpec = \<lparr>ns_ObjectMeta = \<lparr>meta_Name = namespaceName, meta_Namespace = '''', meta_Labels = []\<rparr>\<rparr>"

definition podSpec :: v1_Pod where
  "podSpec =
     \<lparr>pod_ObjectMeta = \<lparr>meta_Name = ''hello-world'', meta_Namespace = namespaceName, meta_Labels = []\<rparr>,
      pod_Spec = \<lparr>Containers = [\<lparr>container_Name = ''hello-world'', container_Image = ''hello-world''\<rparr>]\<rparr>\<rparr>"

definition label :: string where
  "label = ''k8s-app=kube-dns''"

text \<open>
  \<^verbatim>\<open>func Run(ctx, clientset) error\<close>, lines 70 to 128: the one-shot calls, in the order of
  the source, each \<^verbatim>\<open>if err != nil { return fmt.Errorf(...) }\<close> a branch. The result is the
  error (\<open>None\<close> for \<^verbatim>\<open>nil\<close>), the state of the world and the lines logged. Lines 59 to 68
  start the shared informer in a goroutine of its own and register \<open>onPodAdd\<close>,
  \<open>onPodUpdate\<close> and \<open>onPodDelete\<close> with it; that goroutine is not part of the sequential
  model, and the callbacks are modelled below.
\<close>

definition Run :: "'s clientset \<Rightarrow> 's \<Rightarrow> error option \<times> 's \<times> log_line list" where
  "Run clientset s0 =
     (case Namespaces_List clientset s0 of
        (Inl err, s1) \<Rightarrow> (Some (Errorf ''failed to list namespaces'' err), s1, [])
      | (Inr namespaceList, s1) \<Rightarrow>
          let namespaces = map (\<lambda>ns. meta_Name (ns_ObjectMeta ns)) namespaceList;
              log1 = [Info [(''namespaces'', Strings namespaces)] ''k8s namespaces'']
          in
          (case Namespaces_Create clientset nsSpec s1 of
             (Inl err, s2) \<Rightarrow>
               (Some (Errorf (''failed to create '' @ namespaceName @ '' namespace'') err), s2, log1)
           | (Inr _, s2) \<Rightarrow>
               let log2 = log1 @ [Info [] (''created new namespace '' @ namespaceName)] in
               (case Pods_Create clientset namespaceName podSpec s2 of
                  (Inl err, s3) \<Rightarrow> (Some (Errorf ''failed to create pod'' err), s3, log2)
                | (Inr _, s3) \<Rightarrow>
                    let log3 = log2 @ [Info [] ''created hello-world pod''] in
                    (case Pods_List clientset '''' label s3 of
                       (Inl err, s4) \<Rightarrow>
                         (Some (Errorf (''failed to list pods with label '' @ label) err), s4, log3)
                     | (Inr podList, s4) \<Rightarrow>
                         let pods = map SimplePodFromPod podList in
                         (None, s4,
                          log3 @ [Info [(''pods'', SimplePods pods)] (''pods with label '' @ label)])))))"

text \<open>\<^verbatim>\<open>func Cleanup(ctx, clientset) error\<close>, lines 131 to 146.\<close>

definition Cleanup :: "'s clientset \<Rightarrow> 's \<Rightarrow> error option \<times> 's \<times> log_line list" where
  "Cleanup clientset s0 =
     (case Pods_Delete clientset namespaceName ''hello-world'' s0 of
        (Some err, s1) \<Rightarrow> (Some (Errorf ''failed to delete pod'' err), s1, [])
      | (None, s1) \<Rightarrow>
          let log1 = [Info [] ''deleted hello-world pod''] in
          (case Namespaces_Delete clientset namespaceName s1 of
             (Some err, s2) \<Rightarrow> (Some (Errorf ''failed to delete namespace'' err), s2, log1)
           | (None, s2) \<Rightarrow>
               (None, s2, log1 @ [Info [] (''deleted '' @ namespaceName @ '' namespace'')])))"

section \<open>main\<close>

text \<open>
  \<^verbatim>\<open>func main()\<close>, lines 32 to 56. \<^verbatim>\<open>clientcmd.BuildConfigFromFlags\<close> and
  \<^verbatim>\<open>kubernetes.NewForConfig\<close> are the library's: their results are parameters. The outcome is
  the exit status of the process (1 after \<^verbatim>\<open>log.Fatal\<close>, 0 when \<open>main\<close> returns), the state of
  the world it leaves and the lines it logged.
\<close>

record 's outcome =
  exit_status :: nat
  world :: 's
  logged :: "log_line list"

definition main :: "(error + 'cfg) \<Rightarrow> ('cfg \<Rightarrow> error + 's clientset) \<Rightarrow> 's \<Rightarrow> 's outcome" where
  "main BuildConfigFromFlags NewForConfig s0 =
     (let log0 = [Info [] ''connecting to K8s''] in
      case BuildConfigFromFlags of
        Inl err \<Rightarrow>
          \<lparr>exit_status = 1, world = s0,
           logged = log0 @ [Fatal [(''error'', Err err)] ''failed to build config'']\<rparr>
      | Inr config \<Rightarrow>
          (case NewForConfig config of
             Inl err \<Rightarrow>
               \<lparr>exit_status = 1, world = s0,
                logged = log0 @ [Fatal [(''error'', Err err)] ''failed to create clientset from config'']\<rparr>
           | Inr clientset \<Rightarrow>
               (case Run clientset s0 of
                  (Some err, s1, log1) \<Rightarrow>
                    \<lparr>exit_status = 1, world = s1,
                     logged = log0 @ log1 @
                       [Fatal [(''error'', Err err)] ''failed to run Aerospike Code Challenge'']\<rparr>
                | (None, s1, log1) \<Rightarrow>
                    (case Cleanup clientset s1 of
                       (Some err, s2, log2) \<Rightarrow>
                         \<lparr>exit_status = 1, world = s2,
                          logged = log0 @ log1 @ log2 @
                            [Fatal [(''error'', Err err)]
                               ''failed to cleanup after Aerospike Code Challenge'']\<rparr>
                     | (None, s2, log2) \<Rightarrow>
                         \<lparr>exit_status = 0, world = s2, logged = log0 @ log1 @ log2\<rparr>))))"

section \<open>The informer callbacks\<close>

text \<open>
  The callbacks take \<^verbatim>\<open>any\<close>. What the shared informer hands to a handler is a
  \<^verbatim>\<open>*v1.Pod\<close> (here \<open>PodPtr\<close>, \<open>None\<close> the nil pointer) or, for a deletion whose watch event
  was missed, a \<^verbatim>\<open>cache.DeletedFinalStateUnknown{Key, Obj}\<close> tombstone. The unchecked type
  assertion \<^verbatim>\<open>pod.(*v1.Pod)\<close> panics on any other dynamic type, and the dereference
  \<^verbatim>\<open>*p\<close> panics on nil; a panic is the \<open>Inl\<close> result, the line logged the \<open>Inr\<close> one.
\<close>

datatype any =
    PodPtr "v1_Pod option"
  | DeletedFinalStateUnknown string "v1_Pod option"

datatype panic =
    InterfaceConversion
  | NilPointerDereference

text \<open>\<^verbatim>\<open>*x.(*v1.Pod)\<close>\<close>

fun assert_deref_Pod :: "any \<Rightarrow> panic + v1_Pod" where
  "assert_deref_Pod (PodPtr (Some pod)) = Inr pod"
| "assert_deref_Pod (PodPtr None) = Inl NilPointerDereference"
| "assert_deref_Pod (DeletedFinalStateUnknown _ _) = Inl InterfaceConversion"

definition onPodAdd :: "any \<Rightarrow> panic + log_line" where
  "onPodAdd pod =
     (case assert_deref_Pod pod of
        Inl p \<Rightarrow> Inl p
      | Inr v \<Rightarrow> Inr (Info [(''pod'', OnePod (SimplePodFromPod v))] ''informer received pod creation event''))"

definition onPodUpdate :: "any \<Rightarrow> any \<Rightarrow> panic + log_line" where
  "onPodUpdate oldPod newPod =
     (case assert_deref_Pod oldPod of
        Inl p \<Rightarrow> Inl p
      | Inr old \<Rightarrow>
          (case assert_deref_Pod newPod of
             Inl p \<Rightarrow> Inl p
           | Inr new \<Rightarrow>
               Inr (Info [(''old'', OnePod (SimplePodFromPod old)), (''new'', OnePod (SimplePodFromPod new))]
                      ''informer received pod updated event'')))"

definition onPodDelete :: "any \<Rightarrow> panic + log_line" where
  "onPodDelete pod =
     (case assert_deref_Pod pod of
        Inl p \<Rightarrow> Inl p
      | Inr v \<Rightarrow> Inr (Info [(''pod'', OnePod (SimplePodFromPod v))] ''informer received pod deletion event''))"

section \<open>Recording the calls a run issues\<close>

text \<open>
  To speak about the order of the calls, the client is wrapped: \<open>recording c\<close> answers as
  \<open>c\<close> does and appends each call, with the error it returned (\<open>None\<close> for success), to a
  trace kept beside the state of the world.
\<close>

datatype call =
    ListNamespaces
  | CreateNamespace v1_Namespace
  | CreatePod string v1_Pod
  | ListPods string string
  | DeletePod string string
  | DeleteNamespace string

type_synonym trace = "(call \<times> error option) list"

fun err_of :: "error + 'a \<Rightarrow> error option" where
  "err_of (Inl e) = Some e"
| "err_of (Inr _) = None"

definition record_sum :: "call \<Rightarrow> ('s \<Rightarrow> (error + 'a) \<times> 's) \<Rightarrow> 's \<times> trace \<Rightarrow> (error + 'a) \<times> 's \<times> trace" where
  "record_sum cl f = (\<lambda>(s, tr). case f s of (r, s') \<Rightarrow> (r, s', tr @ [(cl, err_of r)]))"

definition record_opt :: "call \<Rightarrow> ('s \<Rightarrow> error option \<times> 's) \<Rightarrow> 's \<times> trace \<Rightarrow> error option \<times> 's \<times> trace" where
  "record_opt cl f = (\<lambda>(s, tr). case f s of (r, s') \<Rightarrow> (r, s', tr @ [(cl, r)]))"

definition recording :: "'s clientset \<Rightarrow> ('s \<times> trace) clientset" where
  "recording c =
     \<lparr>Namespaces_List = record_sum ListNamespaces (Namespaces_List c),
      Namespaces_Create = (\<lambda>ns. record_sum (CreateNamespace ns) (Namespaces_Create c ns)),
      Namespaces_Delete = (\<lambda>name. record_opt (DeleteNamespace name) (Namespaces_Delete c name)),
      Pods_Create = (\<lambda>ns pod. record_sum (CreatePod ns pod) (Pods_Create c ns pod)),
      Pods_List = (\<lambda>ns sel. record_sum (ListPods ns sel) (Pods_List c ns sel)),
      Pods_Delete = (\<lambda>ns name. record_opt (DeletePod ns name) (Pods_Delete c ns name))\<rparr>"

text \<open>The sequences of the specification, section 4.5, with the arguments main.go passes.\<close>

definition Run_calls :: "call list" where
  "Run_calls =
     [ListNamespaces, CreateNamespace nsSpec, CreatePod namespaceName podSpec, ListPods '''' label]"

definition Cleanup_calls :: "call list" where
  "Cleanup_calls = [DeletePod namespaceName ''hello-world'', DeleteNamespace namespaceName]"

text \<open>
  The prefix that names each step, as a table of its own: the theorems below compare the
  errors \<^verbatim>\<open>Run\<close> and \<^verbatim>\<open>Cleanup\<close> return with it.
\<close>

fun failure_prefix :: "call \<Rightarrow> string" where
  "failure_prefix ListNamespaces = ''failed to list namespaces''"
| "failure_prefix (CreateNamespace ns) =
     ''failed to create '' @ meta_Name (ns_ObjectMeta ns) @ '' namespace''"
| "failure_prefix (CreatePod _ _) = ''failed to create pod''"
| "failure_prefix (ListPods _ sel) = ''failed to list pods with label '' @ sel"
| "failure_prefix (DeletePod _ _) = ''failed to delete pod''"
| "failure_prefix (DeleteNamespace _) = ''failed to delete namespace''"

section \<open>What the cluster client promises\<close>

text \<open>
  Modelled from the spec: the cluster behind the Resource Client of section 6. The client is
  the library's, not the repository's: what a call does to the cluster is known to \<^verbatim>\<open>Run\<close>
  only through the client's contract. The cluster is seen through a view of the state of the
  world: the namespaces and the pods it holds, as multisets, since the specification gives a
  listing no order (section 4.2: implementation-defined).
\<close>

record contents =
  held_namespaces :: "v1_Namespace multiset"
  held_pods :: "v1_Pod multiset"

definition names_of :: "contents \<Rightarrow> string multiset" where
  "names_of cl = image_mset (\<lambda>ns. meta_Name (ns_ObjectMeta ns)) (held_namespaces cl)"

text \<open>Modelled from the spec: the identity of an object (section 3), its namespace and its name.\<close>

definition pod_key :: "v1_Pod \<Rightarrow> string \<times> string" where
  "pod_key p = (meta_Namespace (pod_ObjectMeta p), meta_Name (pod_ObjectMeta p))"

definition keys_of :: "contents \<Rightarrow> (string \<times> string) multiset" where
  "keys_of cl = image_mset pod_key (held_pods cl)"

definition in_namespace :: "string \<Rightarrow> v1_Pod \<Rightarrow> v1_Pod" where
  "in_namespace ns pod = pod\<lparr>pod_ObjectMeta := (pod_ObjectMeta pod)\<lparr>meta_Namespace := ns\<rparr>\<rparr>"

text \<open>
  Modelled from the spec: the Resource Client of section 6, whose implementation (client-go
  and the API server) is not in the repository. \<open>List\<close> reads and changes nothing, and
  answers with the objects held, in some order; \<open>Create\<close> fails with \<open>AlreadyExists\<close> if the
  identity collides and otherwise, when it succeeds, adds the object; \<open>Delete\<close> fails with
  \<open>NotFound\<close> if the object is absent and otherwise, when it succeeds, removes it; a call
  that fails changes nothing. A call may still fail for another reason (\<open>Unavailable\<close>). An
  empty namespace argument of the pod listing means every namespace, and \<open>matches\<close> is the
  cluster's reading of a label selector. Each law is a predicate of its own;
  \<open>resource_client\<close> is their conjunction.
\<close>

definition Namespaces_List_law :: "'s clientset \<Rightarrow> ('s \<Rightarrow> contents) \<Rightarrow> bool" where
  "Namespaces_List_law c view \<longleftrightarrow>
     (\<forall>s r s'. Namespaces_List c s = (r, s') \<longrightarrow>
        view s' = view s \<and> (\<forall>l. r = Inr l \<longrightarrow> mset l = held_namespaces (view s)))"

definition Namespaces_Create_law :: "'s clientset \<Rightarrow> ('s \<Rightarrow> contents) \<Rightarrow> bool" where
  "Namespaces_Create_law c view \<longleftrightarrow>
     (\<forall>ns s r s'. Namespaces_Create c ns s = (r, s') \<longrightarrow>
        (if meta_Name (ns_ObjectMeta ns) \<in># names_of (view s)
         then r = Inl AlreadyExists \<and> view s' = view s
         else (case r of
                 Inl e \<Rightarrow> view s' = view s
               | Inr _ \<Rightarrow>
                   view s' = (view s)\<lparr>held_namespaces := add_mset ns (held_namespaces (view s))\<rparr>)))"

definition Namespaces_Delete_law :: "'s clientset \<Rightarrow> ('s \<Rightarrow> contents) \<Rightarrow> bool" where
  "Namespaces_Delete_law c view \<longleftrightarrow>
     (\<forall>name s r s'. Namespaces_Delete c name s = (r, s') \<longrightarrow>
        (if name \<notin># names_of (view s)
         then r = Some NotFound \<and> view s' = view s
         else (case r of
                 Some e \<Rightarrow> view s' = view s
               | None \<Rightarrow>
                   view s' = (view s)\<lparr>held_namespaces :=
                     filter_mset (\<lambda>ns. meta_Name (ns_ObjectMeta ns) \<noteq> name)
                       (held_namespaces (view s))\<rparr>)))"

definition Pods_Create_law :: "'s clientset \<Rightarrow> ('s \<Rightarrow> contents) \<Rightarrow> bool" where
  "Pods_Create_law c view \<longleftrightarrow>
     (\<forall>ns pod s r s'. Pods_Create c ns pod s = (r, s') \<longrightarrow>
        (if pod_key (in_namespace ns pod) \<in># keys_of (view s)
         then r = Inl AlreadyExists \<and> view s' = view s
         else (case r of
                 Inl e \<Rightarrow> view s' = view s
               | Inr _ \<Rightarrow>
                   view s' = (view s)\<lparr>held_pods := add_mset (in_namespace ns pod) (held_pods (view s))\<rparr>)))"

definition Pods_List_law ::
  "'s clientset \<Rightarrow> ('s \<Rightarrow> contents) \<Rightarrow> (string \<Rightarrow> v1_Pod \<Rightarrow> bool) \<Rightarrow> bool" where
  "Pods_List_law c view matches \<longleftrightarrow>
     (\<forall>ns sel s r s'. Pods_List c ns sel s = (r, s') \<longrightarrow>
        view s' = view s \<and>
        (\<forall>l. r = Inr l \<longrightarrow>
           mset l =
             filter_mset (\<lambda>p. (ns = '''' \<or> meta_Namespace (pod_ObjectMeta p) = ns) \<and> matches sel p)
               (held_pods (view s))))"

definition Pods_Delete_law :: "'s clientset \<Rightarrow> ('s \<Rightarrow> contents) \<Rightarrow> bool" where
  "Pods_Delete_law c view \<longleftrightarrow>
     (\<forall>ns name s r s'. Pods_Delete c ns name s = (r, s') \<longrightarrow>
        (if (ns, name) \<notin># keys_of (view s)
         then r = Some NotFound \<and> view s' = view s
         else (case r of
                 Some e \<Rightarrow> view s' = view s
               | None \<Rightarrow>
                   view s' = (view s)\<lparr>held_pods :=
                     filter_mset (\<lambda>p. pod_key p \<noteq> (ns, name)) (held_pods (view s))\<rparr>)))"

definition resource_client ::
  "'s clientset \<Rightarrow> ('s \<Rightarrow> contents) \<Rightarrow> (string \<Rightarrow> v1_Pod \<Rightarrow> bool) \<Rightarrow> bool" where
  "resource_client c view matches \<longleftrightarrow>
     Namespaces_List_law c view \<and> Namespaces_Create_law c view \<and> Namespaces_Delete_law c view \<and>
     Pods_Create_law c view \<and> Pods_List_law c view matches \<and> Pods_Delete_law c view"

section \<open>An in-memory client\<close>

text \<open>
  Modelled from the spec: the query of workloads by label (section 1), for the in-memory
  client below. The selector main.go passes has the form \<^verbatim>\<open>key=value\<close>: \<open>split_eq\<close> cuts a
  selector at its first \<^verbatim>\<open>=\<close>. The empty selector selects everything, and a selector with
  no \<^verbatim>\<open>=\<close> asks for the key to be present.
\<close>

fun split_eq :: "string \<Rightarrow> (string \<times> string) option" where
  "split_eq [] = None"
| "split_eq (c # cs) =
     (if c = CHR ''='' then Some ([], cs)
      else (case split_eq cs of None \<Rightarrow> None | Some (k, v) \<Rightarrow> Some (c # k, v)))"

definition selector_matches :: "string \<Rightarrow> v1_Pod \<Rightarrow> bool" where
  "selector_matches sel pod =
     (let labels = meta_Labels (pod_ObjectMeta pod) in
      if sel = [] then True
      else (case split_eq sel of
              Some (k, v) \<Rightarrow> map_of labels k = Some v
            | None \<Rightarrow> map_of labels sel \<noteq> None))"

text \<open>
  Modelled from the spec: the state of the in-memory client below, the namespaces and the
  pods it holds, kept in the order they were created.
\<close>

record cluster =
  cl_namespaces :: "v1_Namespace list"
  cl_pods :: "v1_Pod list"

definition ns_names :: "cluster \<Rightarrow> string list" where
  "ns_names cl = map (\<lambda>ns. meta_Name (ns_ObjectMeta ns)) (cl_namespaces cl)"

definition pod_keys :: "cluster \<Rightarrow> (string \<times> string) list" where
  "pod_keys cl = map pod_key (cl_pods cl)"

definition contents_of :: "cluster \<Rightarrow> contents" where
  "contents_of cl = \<lparr>held_namespaces = mset (cl_namespaces cl), held_pods = mset (cl_pods cl)\<rparr>"

text \<open>
  Modelled from the spec: the order of a listing is implementation-defined (section 4.2); the
  in-memory client sorts by key, the name of a namespace and \<^verbatim>\<open>namespace/name\<close> of a pod.
\<close>

definition ns_sort_key :: "v1_Namespace \<Rightarrow> string" where
  "ns_sort_key ns = meta_Name (ns_ObjectMeta ns)"

definition pod_sort_key :: "v1_Pod \<Rightarrow> string" where
  "pod_sort_key p = meta_Namespace (pod_ObjectMeta p) @ ''/'' @ meta_Name (pod_ObjectMeta p)"

text \<open>
  Modelled from the spec: a client of section 6 that keeps the cluster in memory, never
  fails in transit and lists what it holds sorted by key, the kind of client the
  repository's test hands to \<^verbatim>\<open>Run\<close> (\<^verbatim>\<open>fake.NewSimpleClientset()\<close>, whose code is the
  library's). It is the instance at which the theorems below are applied.
\<close>

definition memory_client :: "cluster clientset" where
  "memory_client =
     \<lparr>Namespaces_List = (\<lambda>s. (Inr (sort_key ns_sort_key (cl_namespaces s)), s)),
      Namespaces_Create = (\<lambda>ns s.
         if meta_Name (ns_ObjectMeta ns) \<in> set (ns_names s) then (Inl AlreadyExists, s)
         else (Inr ns, s\<lparr>cl_namespaces := cl_namespaces s @ [ns]\<rparr>)),
      Namespaces_Delete = (\<lambda>name s.
         if name \<notin> set (ns_names s) then (Some NotFound, s)
         else (None, s\<lparr>cl_namespaces :=
                 filter (\<lambda>ns. meta_Name (ns_ObjectMeta ns) \<noteq> name) (cl_namespaces s)\<rparr>)),
      Pods_Create = (\<lambda>ns pod s.
         if pod_key (in_namespace ns pod) \<in> set (pod_keys s) then (Inl AlreadyExists, s)
         else (Inr (in_namespace ns pod), s\<lparr>cl_pods := cl_pods s @ [in_namespace ns pod]\<rparr>)),
      Pods_List = (\<lambda>ns sel s.
         if ns \<noteq> '''' \<and> ns \<notin> set (ns_names s) then (Inl NotFound, s)
         else (Inr (sort_key pod_sort_key
                      (filter (\<lambda>p. (ns = '''' \<or> meta_Namespace (pod_ObjectMeta p) = ns) \<and>
                                    selector_matches sel p) (cl_pods s))), s)),
      Pods_Delete = (\<lambda>ns name s.
         if (ns, name) \<notin> set (pod_keys s) then (Some NotFound, s)
         else (None, s\<lparr>cl_pods := filter (\<lambda>p. pod_key p \<noteq> (ns, name)) (cl_pods s)\<rparr>))\<rparr>"

text \<open>
  Clusters to run on. \<open>small_cluster\<close> has two namespaces, a pod labelled
  \<^verbatim>\<open>k8s-app=kube-dns\<close> in each of them, and a pod without that label; \<open>ready_cluster\<close> is
  \<open>small_cluster\<close> after a successful \<^verbatim>\<open>Run\<close>.
\<close>

definition dns_pod :: "string \<Rightarrow> v1_Pod" where
  "dns_pod name =
     \<lparr>pod_ObjectMeta = \<lparr>meta_Name = name, meta_Namespace = ''kube-system'',
                        meta_Labels = [(''k8s-app'', ''kube-dns'')]\<rparr>,
      pod_Spec = \<lparr>Containers = [\<lparr>container_Name = ''coredns'', container_Image = ''coredns''\<rparr>]\<rparr>\<rparr>"

definition edge_dns_pod :: v1_Pod where
  "edge_dns_pod =
     \<lparr>pod_ObjectMeta = \<lparr>meta_Name = ''edge-dns'', meta_Namespace = ''default'',
                        meta_Labels = [(''tier'', ''edge''), (''k8s-app'', ''kube-dns'')]\<rparr>,
      pod_Spec = \<lparr>Containers = [\<lparr>container_Name = ''dnsmasq'', container_Image = ''dnsmasq''\<rparr>]\<rparr>\<rparr>"

definition web_pod :: v1_Pod where
  "web_pod =
     \<lparr>pod_ObjectMeta = \<lparr>meta_Name = ''web'', meta_Namespace = ''default'',
                        meta_Labels = [(''k8s-app'', ''web'')]\<rparr>,
      pod_Spec = \<lparr>Containers = [\<lparr>container_Name = ''nginx'', container_Image = ''nginx''\<rparr>]\<rparr>\<rparr>"

definition kube_system :: v1_Namespace where
  "kube_system = \<lparr>ns_ObjectMeta = \<lparr>meta_Name = ''kube-system'', meta_Namespace = '''', meta_Labels = []\<rparr>\<rparr>"

definition default_ns :: v1_Namespace where
  "default_ns = \<lparr>ns_ObjectMeta = \<lparr>meta_Name = ''default'', meta_Namespace = '''', meta_Labels = []\<rparr>\<rparr>"

definition small_cluster :: cluster where
  "small_cluster =
     \<lparr>cl_namespaces = [kube_system, default_ns],
      cl_pods = [dns_pod ''coredns-a'', web_pod, edge_dns_pod]\<rparr>"

definition ready_cluster :: cluster where
  "ready_cluster =
     \<lparr>cl_namespaces = [kube_system, default_ns, nsSpec],
      cl_pods = [dns_pod ''coredns-a'', web_pod, edge_dns_pod, podSpec]\<rparr>"

text \<open>
  The lines a successful \<^verbatim>\<open>Run\<close> logs on \<open>small_cluster\<close>: the listings come sorted, not in
  the order of creation.
\<close>

definition small_log :: "log_line list" where
  "small_log =
     [Info [(''namespaces'', Strings [''default'', ''kube-system''])] ''k8s namespaces'',
      Info [] ''created new namespace aerospike'',
      Info [] ''created hello-world pod'',
      Info [(''pods'', SimplePods [\<lparr>Name = ''edge-dns'', Namespace = ''default''\<rparr>,
                                  \<lparr>Name = ''coredns-a'', Namespace = ''kube-system''\<rparr>])]
        ''pods with label k8s-app=kube-dns'']"

text \<open>
  The empty cluster is where the repository's test starts \<^verbatim>\<open>Run\<close>; \<open>created_cluster\<close> and
  \<open>empty_log\<close> are what a successful \<^verbatim>\<open>Run\<close> makes of it and logs on it.
\<close>

definition empty_cluster :: cluster where
  "empty_cluster = \<lparr>cl_namespaces = [], cl_pods = []\<rparr>"

definition created_cluster :: cluster where
  "created_cluster = \<lparr>cl_namespaces = [nsSpec], cl_pods = [podSpec]\<rparr>"

definition empty_log :: "log_line list" where
  "empty_log =
     [Info [(''namespaces'', Strings [])] ''k8s namespaces'',
      Info [] ''created new namespace aerospike'',
      Info [] ''created hello-world pod'',
      Info [(''pods'', SimplePods [])] ''pods with label k8s-app=kube-dns'']"

text \<open>
  Three more clusters: one where a pod with the identity of the hello-world pod is already
  stored, and what a run leaves of it; and one where the namespace exists and the pod does
  not.
\<close>

definition orphan_cluster :: cluster where
  "orphan_cluster = \<lparr>cl_namespaces = [kube_system], cl_pods = [podSpec]\<rparr>"

definition half_done_cluster :: cluster where
  "half_done_cluster = \<lparr>cl_namespaces = [kube_system, nsSpec], cl_pods = [podSpec]\<rparr>"

definition ns_only_cluster :: cluster where
  "ns_only_cluster = \<lparr>cl_namespaces = [kube_system, nsSpec], cl_pods = [dns_pod ''coredns-a'']\<rparr>"

text \<open>The traces of a successful \<^verbatim>\<open>Run\<close> and of a successful \<^verbatim>\<open>Cleanup\<close>.\<close>

definition Run_trace :: trace where
  "Run_trace =
     [(ListNamespaces, None), (CreateNamespace nsSpec, None),
      (CreatePod namespaceName podSpec, None), (ListPods '''' label, None)]"

definition Cleanup_trace :: trace where
  "Cleanup_trace =
     [(DeletePod namespaceName ''hello-world'', None), (DeleteNamespace namespaceName, None)]"

section \<open>The watch subsystem\<close>

text \<open>
  Modelled from the spec: the informer that \<^verbatim>\<open>Run\<close> starts (lines 60 to 63) is client-go's
  and is not in the repository; what follows is the subsystem of sections 3 and 4.1 to 4.4,
  as a function of one list-then-watch session: the snapshot of the initial listing and the
  events the watch stream then delivers. Resync, backoff, cancellation and the per-callback
  timeout are matters of scheduling and time and are left out.

  A change event carries one object and the resource version that delivers it.
\<close>

datatype ChangeEvent =
    Added v1_Pod nat
  | Modified v1_Pod nat
  | Deleted v1_Pod nat

text \<open>
  Modelled from the spec: section 4.2, the Local Store, a keyed mapping from the identity (namespace and name) to the
  last-known object, with \<open>Upsert\<close>, \<open>Remove\<close>, \<open>Get\<close> and a listing.
\<close>

type_synonym LocalStore = "((string \<times> string) \<times> v1_Pod) list"

definition Upsert :: "v1_Pod \<Rightarrow> LocalStore \<Rightarrow> LocalStore" where
  "Upsert obj st = AList.update (pod_key obj) obj st"

definition Remove :: "string \<times> string \<Rightarrow> LocalStore \<Rightarrow> LocalStore" where
  "Remove k st = AList.delete k st"

definition Get :: "string \<times> string \<Rightarrow> LocalStore \<Rightarrow> v1_Pod option" where
  "Get k st = map_of st k"

definition Store_List :: "LocalStore \<Rightarrow> v1_Pod list" where
  "Store_List st = map snd st"

text \<open>
  Modelled from the spec: section 4.3, the Delta Queue, a FIFO of change events with no
  deduplication.
\<close>

type_synonym DeltaQueue = "ChangeEvent list"

definition enqueue :: "ChangeEvent \<Rightarrow> DeltaQueue \<Rightarrow> DeltaQueue" where
  "enqueue ev q = q @ [ev]"

text \<open>
  Modelled from the spec: section 4.1, the Reflector. Step 1: the store is replaced by the snapshot and a synthetic
  \<open>Added\<close> is enqueued for every item. Step 3: each streamed event is applied to the store
  (insert or replace on \<open>Added\<close> and \<open>Modified\<close>, remove on \<open>Deleted\<close>) and then enqueued,
  in the order of the stream.
\<close>

fun apply_event :: "ChangeEvent \<Rightarrow> LocalStore \<Rightarrow> LocalStore" where
  "apply_event (Added obj _) st = Upsert obj st"
| "apply_event (Modified obj _) st = Upsert obj st"
| "apply_event (Deleted obj _) st = Remove (pod_key obj) st"

definition bootstrap :: "v1_Pod list \<Rightarrow> nat \<Rightarrow> LocalStore \<times> DeltaQueue" where
  "bootstrap items rv = (fold Upsert items [], map (\<lambda>obj. Added obj rv) items)"

fun reflect :: "ChangeEvent list \<Rightarrow> LocalStore \<times> DeltaQueue \<Rightarrow> LocalStore \<times> DeltaQueue" where
  "reflect [] sq = sq"
| "reflect (ev # evs) (st, q) = reflect evs (apply_event ev st, enqueue ev q)"

definition Reflector_Run :: "v1_Pod list \<Rightarrow> nat \<Rightarrow> ChangeEvent list \<Rightarrow> LocalStore \<times> DeltaQueue" where
  "Reflector_Run items rv stream = reflect stream (bootstrap items rv)"

text \<open>
  An observer registration is a triple of callbacks under a handle. The triple main.go
  registers (lines 64 to 68) is \<^verbatim>\<open>cache.ResourceEventHandlerFuncs\<close> with the three callbacks of
  the source.
\<close>

record ResourceEventHandlerFuncs =
  AddFunc :: "any \<Rightarrow> panic + log_line"
  UpdateFunc :: "any \<Rightarrow> any \<Rightarrow> panic + log_line"
  DeleteFunc :: "any \<Rightarrow> panic + log_line"

definition podEventHandlers :: ResourceEventHandlerFuncs where
  "podEventHandlers = \<lparr>AddFunc = onPodAdd, UpdateFunc = onPodUpdate, DeleteFunc = onPodDelete\<rparr>"

text \<open>
  Modelled from the spec: section 4.4, the Event Dispatcher. It takes the events off the queue in order and, for
  each, invokes the matching callback of every registration: \<open>onAdd\<close> for \<open>Added\<close>,
  \<open>onUpdate\<close> for \<open>Modified\<close> with the previous and the current value, \<open>onDelete\<close> for
  \<open>Deleted\<close> with the last-known value. The previous value is looked up in the store as it
  was before the event overwrote it, so the dispatcher follows the store from the state it
  had before the queued events. An \<open>Added\<close> for an identity already known is delivered as an
  update (section 8, idempotence), and a \<open>Modified\<close> for an unknown one as an add. What is
  recorded of an invocation is the handle, the callback, the payloads and what the callback
  returned; a callback that fails is recorded with its failure and skipped, and delivery
  goes on.
\<close>

datatype callback = OnAdd | OnUpdate | OnDelete

datatype invocation = Invocation nat callback "any list" "panic + log_line"

fun notify :: "LocalStore \<Rightarrow> ChangeEvent \<Rightarrow> nat \<times> ResourceEventHandlerFuncs \<Rightarrow> invocation" where
  "notify st (Added obj _) (h, f) =
     (case Get (pod_key obj) st of
        None \<Rightarrow> Invocation h OnAdd [PodPtr (Some obj)] (AddFunc f (PodPtr (Some obj)))
      | Some old \<Rightarrow>
          Invocation h OnUpdate [PodPtr (Some old), PodPtr (Some obj)]
            (UpdateFunc f (PodPtr (Some old)) (PodPtr (Some obj))))"
| "notify st (Modified obj _) (h, f) =
     (case Get (pod_key obj) st of
        None \<Rightarrow> Invocation h OnAdd [PodPtr (Some obj)] (AddFunc f (PodPtr (Some obj)))
      | Some old \<Rightarrow>
          Invocation h OnUpdate [PodPtr (Some old), PodPtr (Some obj)]
            (UpdateFunc f (PodPtr (Some old)) (PodPtr (Some obj))))"
| "notify st (Deleted obj _) (h, f) =
     (case Get (pod_key obj) st of
        None \<Rightarrow> Invocation h OnDelete [PodPtr (Some obj)] (DeleteFunc f (PodPtr (Some obj)))
      | Some old \<Rightarrow> Invocation h OnDelete [PodPtr (Some old)] (DeleteFunc f (PodPtr (Some old))))"

fun Drain ::
  "DeltaQueue \<Rightarrow> (nat \<times> ResourceEventHandlerFuncs) list \<Rightarrow> LocalStore \<Rightarrow> invocation list" where
  "Drain [] regs st = []"
| "Drain (ev # q) regs st = map (notify st ev) regs @ Drain q regs (apply_event ev st)"

text \<open>
  Modelled from the spec: the whole subsystem on one session, the store the Reflector leaves, and the invocations
  the Dispatcher makes of the queue the Reflector filled, starting from the empty store.
\<close>

definition informer ::
  "v1_Pod list \<Rightarrow> nat \<Rightarrow> ChangeEvent list \<Rightarrow> (nat \<times> ResourceEventHandlerFuncs) list \<Rightarrow>
     LocalStore \<times> invocation list" where
  "informer items rv stream regs =
     (case Reflector_Run items rv stream of (st, q) \<Rightarrow> (st, Drain q regs []))"

fun callback_of :: "invocation \<Rightarrow> callback" where
  "callback_of (Invocation _ cb _ _) = cb"

section \<open>Lemmas: the recording client, the contract, and runs of the in-memory client\<close>

lemma recording_simps:
  "Namespaces_List (recording c) = record_sum ListNamespaces (Namespaces_List c)"
  "Namespaces_Create (recording c) ns = record_sum (CreateNamespace ns) (Namespaces_Create c ns)"
  "Namespaces_Delete (recording c) name = record_opt (DeleteNamespace name) (Namespaces_Delete c name)"
  "Pods_Create (recording c) n pod = record_sum (CreatePod n pod) (Pods_Create c n pod)"
  "Pods_List (recording c) n sel = record_sum (ListPods n sel) (Pods_List c n sel)"
  "Pods_Delete (recording c) n name = record_opt (DeletePod n name) (Pods_Delete c n name)"
  by (simp_all add: recording_def)

lemma Run_recording:
  "Run (recording c) (s, tr0) = (r, (s', tr), lg) \<Longrightarrow> Run c s = (r, s', lg)"
  by (auto simp: Run_def recording_simps record_sum_def Let_def split: prod.splits sum.splits)

lemma Cleanup_recording:
  "Cleanup (recording c) (s, tr0) = (r, (s', tr), lg) \<Longrightarrow> Cleanup c s = (r, s', lg)"
  by (auto simp: Cleanup_def recording_simps record_opt_def Let_def split: prod.splits option.splits)

subsection \<open>The in-memory client keeps the contract\<close>

lemma memory_Namespaces_List_law: "Namespaces_List_law memory_client contents_of"
  by (auto simp: Namespaces_List_law_def memory_client_def contents_of_def)

lemma memory_Namespaces_Create_law: "Namespaces_Create_law memory_client contents_of"
  by (auto simp: Namespaces_Create_law_def memory_client_def contents_of_def names_of_def
      ns_names_def)

lemma memory_Namespaces_Delete_law: "Namespaces_Delete_law memory_client contents_of"
  by (auto simp: Namespaces_Delete_law_def memory_client_def contents_of_def names_of_def
      ns_names_def)

lemma memory_Pods_Create_law: "Pods_Create_law memory_client contents_of"
  by (auto simp: Pods_Create_law_def memory_client_def contents_of_def keys_of_def pod_keys_def)

lemma memory_Pods_List_law: "Pods_List_law memory_client contents_of selector_matches"
  by (auto simp: Pods_List_law_def memory_client_def contents_of_def split: if_splits)

lemma memory_Pods_Delete_law: "Pods_Delete_law memory_client contents_of"
  by (auto simp: Pods_Delete_law_def memory_client_def contents_of_def keys_of_def pod_keys_def)

lemma memory_client_resource_client: "resource_client memory_client contents_of selector_matches"
  unfolding resource_client_def
  by (intro conjI memory_Namespaces_List_law memory_Namespaces_Create_law
      memory_Namespaces_Delete_law memory_Pods_Create_law memory_Pods_List_law
      memory_Pods_Delete_law)

subsection \<open>The laws, call by call\<close>

lemma Namespaces_ListD:
  "Namespaces_List_law c view \<Longrightarrow> Namespaces_List c s = (r, s') \<Longrightarrow>
     view s' = view s \<and> (\<forall>l. r = Inr l \<longrightarrow> mset l = held_namespaces (view s))"
  unfolding Namespaces_List_law_def by blast

lemma Namespaces_CreateD:
  "Namespaces_Create_law c view \<Longrightarrow> Namespaces_Create c ns s = (r, s') \<Longrightarrow>
     (if meta_Name (ns_ObjectMeta ns) \<in># names_of (view s)
      then r = Inl AlreadyExists \<and> view s' = view s
      else (case r of
              Inl e \<Rightarrow> view s' = view s
            | Inr _ \<Rightarrow>
                view s' = (view s)\<lparr>held_namespaces := add_mset ns (held_namespaces (view s))\<rparr>))"
  unfolding Namespaces_Create_law_def by blast

lemma Namespaces_DeleteD:
  "Namespaces_Delete_law c view \<Longrightarrow> Namespaces_Delete c name s = (r, s') \<Longrightarrow>
     (if name \<notin># names_of (view s)
      then r = Some NotFound \<and> view s' = view s
      else (case r of
              Some e \<Rightarrow> view s' = view s
            | None \<Rightarrow>
                view s' = (view s)\<lparr>held_namespaces :=
                  filter_mset (\<lambda>ns. meta_Name (ns_ObjectMeta ns) \<noteq> name)
                    (held_namespaces (view s))\<rparr>))"
  unfolding Namespaces_Delete_law_def by blast

lemma Pods_CreateD:
  "Pods_Create_law c view \<Longrightarrow> Pods_Create c ns pod s = (r, s') \<Longrightarrow>
     (if pod_key (in_namespace ns pod) \<in># keys_of (view s)
      then r = Inl AlreadyExists \<and> view s' = view s
      else (case r of
              Inl e \<Rightarrow> view s' = view s
            | Inr _ \<Rightarrow>
                view s' = (view s)\<lparr>held_pods := add_mset (in_namespace ns pod) (held_pods (view s))\<rparr>))"
  unfolding Pods_Create_law_def by blast

lemma Pods_ListD:
  "Pods_List_law c view m \<Longrightarrow> Pods_List c ns sel s = (r, s') \<Longrightarrow>
     view s' = view s \<and>
     (\<forall>l. r = Inr l \<longrightarrow>
        mset l =
          filter_mset (\<lambda>p. (ns = '''' \<or> meta_Namespace (pod_ObjectMeta p) = ns) \<and> m sel p)
            (held_pods (view s)))"
  unfolding Pods_List_law_def by blast

lemma Pods_DeleteD:
  "Pods_Delete_law c view \<Longrightarrow> Pods_Delete c ns name s = (r, s') \<Longrightarrow>
     (if (ns, name) \<notin># keys_of (view s)
      then r = Some NotFound \<and> view s' = view s
      else (case r of
              Some e \<Rightarrow> view s' = view s
            | None \<Rightarrow>
                view s' = (view s)\<lparr>held_pods :=
                  filter_mset (\<lambda>p. pod_key p \<noteq> (ns, name)) (held_pods (view s))\<rparr>))"
  unfolding Pods_Delete_law_def by blast

lemma in_namespace_podSpec: "in_namespace namespaceName podSpec = podSpec"
  by (simp add: in_namespace_def podSpec_def)

subsection \<open>What a run does to the cluster, under the contract\<close>

lemma Run_success_view:
  assumes nl: "Namespaces_List_law c view"
    and nc: "Namespaces_Create_law c view"
    and pc: "Pods_Create_law c view"
    and pl: "Pods_List_law c view matches"
    and run: "Run c s = (None, s', lg)"
  shows "namespaceName \<notin># names_of (view s)"
    and "(namespaceName, ''hello-world'') \<notin># keys_of (view s)"
    and "view s' = \<lparr>held_namespaces = add_mset nsSpec (held_namespaces (view s)),
                    held_pods = add_mset podSpec (held_pods (view s))\<rparr>"
    and "\<exists>l ps. lg = [Info [(''namespaces'', Strings (map (\<lambda>ns. meta_Name (ns_ObjectMeta ns)) l))]
                        ''k8s namespaces'',
                      Info [] (''created new namespace '' @ namespaceName),
                      Info [] ''created hello-world pod'',
                      Info [(''pods'', SimplePods (map SimplePodFromPod ps))]
                        (''pods with label '' @ label)] \<and>
                mset l = held_namespaces (view s) \<and>
                mset ps = filter_mset (matches label) (held_pods (view s'))"
proof -
  from run obtain l s1 n s2 p s3 ps where
    c1: "Namespaces_List c s = (Inr l, s1)" and
    c2: "Namespaces_Create c nsSpec s1 = (Inr n, s2)" and
    c3: "Pods_Create c namespaceName podSpec s2 = (Inr p, s3)" and
    c4: "Pods_List c '''' label s3 = (Inr ps, s')" and
    lg: "lg = [Info [(''namespaces'', Strings (map (\<lambda>ns. meta_Name (ns_ObjectMeta ns)) l))] ''k8s namespaces'',
               Info [] (''created new namespace '' @ namespaceName),
               Info [] ''created hello-world pod'',
               Info [(''pods'', SimplePods (map SimplePodFromPod ps))] (''pods with label '' @ label)]"
    by (auto simp: Run_def Let_def split: prod.splits sum.splits)
  from Namespaces_ListD[OF nl c1] have v1: "view s1 = view s" and l: "mset l = held_namespaces (view s)"
    by auto
  from Namespaces_CreateD[OF nc c2] have n2: "meta_Name (ns_ObjectMeta nsSpec) \<notin># names_of (view s1)"
    and v2: "view s2 = (view s1)\<lparr>held_namespaces := add_mset nsSpec (held_namespaces (view s1))\<rparr>"
    by (auto split: if_splits)
  show "namespaceName \<notin># names_of (view s)" using n2 v1 by (simp add: nsSpec_def)
  from Pods_CreateD[OF pc c3] have n3: "pod_key podSpec \<notin># keys_of (view s2)"
    and v3: "view s3 = (view s2)\<lparr>held_pods := add_mset podSpec (held_pods (view s2))\<rparr>"
    by (auto simp: in_namespace_podSpec split: if_splits)
  show "(namespaceName, ''hello-world'') \<notin># keys_of (view s)"
    using n3 v2 v1 by (simp add: keys_of_def pod_key_def podSpec_def)
  from Pods_ListD[OF pl c4] have v4: "view s' = view s3"
    and ps: "mset ps = filter_mset (matches label) (held_pods (view s3))"
    by auto
  show "view s' = \<lparr>held_namespaces = add_mset nsSpec (held_namespaces (view s)),
                   held_pods = add_mset podSpec (held_pods (view s))\<rparr>"
    using v4 v3 v2 v1 by simp
  from lg l ps v4
  show "\<exists>l ps. lg = [Info [(''namespaces'', Strings (map (\<lambda>ns. meta_Name (ns_ObjectMeta ns)) l))]
                        ''k8s namespaces'',
                      Info [] (''created new namespace '' @ namespaceName),
                      Info [] ''created hello-world pod'',
                      Info [(''pods'', SimplePods (map SimplePodFromPod ps))]
                        (''pods with label '' @ label)] \<and>
                mset l = held_namespaces (view s) \<and>
                mset ps = filter_mset (matches label) (held_pods (view s'))"
    by (intro exI[of _ l] exI[of _ ps]) simp
qed

lemma Cleanup_success_view:
  assumes pd: "Pods_Delete_law c view"
    and nd: "Namespaces_Delete_law c view"
    and cleanup: "Cleanup c s = (None, s', lg)"
  shows "view s' =
           \<lparr>held_namespaces =
              filter_mset (\<lambda>ns. meta_Name (ns_ObjectMeta ns) \<noteq> namespaceName)
                (held_namespaces (view s)),
            held_pods =
              filter_mset (\<lambda>p. pod_key p \<noteq> (namespaceName, ''hello-world'')) (held_pods (view s))\<rparr>"
proof -
  from cleanup obtain s1 where
    c1: "Pods_Delete c namespaceName ''hello-world'' s = (None, s1)" and
    c2: "Namespaces_Delete c namespaceName s1 = (None, s')"
    by (auto simp: Cleanup_def Let_def split: prod.splits option.splits)
  from Pods_DeleteD[OF pd c1] have v1: "view s1 = (view s)\<lparr>held_pods :=
                  filter_mset (\<lambda>p. pod_key p \<noteq> (namespaceName, ''hello-world'')) (held_pods (view s))\<rparr>"
    by (auto split: if_splits)
  from Namespaces_DeleteD[OF nd c2] have v2: "view s' = (view s1)\<lparr>held_namespaces :=
                  filter_mset (\<lambda>ns. meta_Name (ns_ObjectMeta ns) \<noteq> namespaceName)
                    (held_namespaces (view s1))\<rparr>"
    by (auto split: if_splits)
  show ?thesis using v1 v2 by simp
qed

lemma Run_log_namespaces:
  assumes nl: "Namespaces_List_law c view"
    and run: "Run c s = (r, s', lg)"
  shows "\<forall>l m. Info [(''namespaces'', Strings l)] m \<in> set lg \<longrightarrow> mset l = names_of (view s)"
proof -
  obtain r1 t1 where c1: "Namespaces_List c s = (r1, t1)"
    by (cases "Namespaces_List c s")
  show ?thesis
  proof (cases r1)
    case (Inl e)
    with run c1 show ?thesis by (simp add: Run_def)
  next
    case (Inr nl')
    with Namespaces_ListD[OF nl c1] have l: "mset nl' = held_namespaces (view s)" by simp
    have "mset (map (\<lambda>ns. meta_Name (ns_ObjectMeta ns)) nl') = names_of (view s)"
      unfolding names_of_def l[symmetric] by simp
    with run c1 Inr show ?thesis
      by (auto simp: Run_def Let_def split: prod.splits sum.splits)
  qed
qed

lemma Run_first_line:
  assumes run: "Run (recording c) (s, []) = (r, (s', tr), lg)"
  shows "fst (hd tr) = ListNamespaces \<and>
         ((ListNamespaces, None) \<in> set tr \<longrightarrow>
            (\<exists>l. lg \<noteq> [] \<and> hd lg = Info [(''namespaces'', Strings l)] ''k8s namespaces''))"
  using run
  by (auto simp: Run_def recording_simps record_sum_def Let_def split: prod.splits sum.splits)

lemma Run_namespaces_after_create:
  assumes nl: "Namespaces_List_law c view"
    and nc: "Namespaces_Create_law c view"
    and pc: "Pods_Create_law c view"
    and pl: "Pods_List_law c view matches"
    and run: "Run (recording c) (s, []) = (r, (s', tr), lg)"
    and created: "(CreateNamespace nsSpec, None) \<in> set tr"
  shows "namespaceName \<notin># names_of (view s) \<and>
         held_namespaces (view s') = add_mset nsSpec (held_namespaces (view s))"
proof -
  obtain r1 t1 where c1: "Namespaces_List c s = (r1, t1)"
    by (cases "Namespaces_List c s")
  obtain r2 t2 where c2: "Namespaces_Create c nsSpec t1 = (r2, t2)"
    by (cases "Namespaces_Create c nsSpec t1")
  obtain r3 t3 where c3: "Pods_Create c namespaceName podSpec t2 = (r3, t3)"
    by (cases "Pods_Create c namespaceName podSpec t2")
  obtain r4 t4 where c4: "Pods_List c '''' label t3 = (r4, t4)"
    by (cases "Pods_List c '''' label t3")
  from Namespaces_ListD[OF nl c1] have v1: "view t1 = view s" by simp
  from Pods_CreateD[OF pc c3] have v3: "held_namespaces (view t3) = held_namespaces (view t2)"
    by (auto split: if_splits sum.splits)
  from Pods_ListD[OF pl c4] have v4: "view t4 = view t3" by simp
  from run created c1 c2 c3 c4 obtain n where r2: "r2 = Inr n" and s': "s' = t3 \<or> s' = t4"
    by (cases r1; cases r2; cases r3; cases r4)
      (auto simp: Run_def recording_simps record_sum_def Let_def)
  from Namespaces_CreateD[OF nc c2] r2 v1
  have "meta_Name (ns_ObjectMeta nsSpec) \<notin># names_of (view s)"
    and v2: "held_namespaces (view t2) = add_mset nsSpec (held_namespaces (view s))"
    by (auto split: if_splits)
  then have "namespaceName \<notin># names_of (view s)" by (simp add: nsSpec_def)
  moreover from s' v2 v3 v4
  have "held_namespaces (view s') = add_mset nsSpec (held_namespaces (view s))"
    by auto
  ultimately show ?thesis by (intro conjI)
qed

lemma filter_mset_absent_key:
  "k \<notin># image_mset f M \<Longrightarrow> filter_mset (\<lambda>q. f q = k) M = {#}"
  by (induction M) auto

lemma filter_mset_out_added:
  "f x = k \<Longrightarrow> k \<notin># image_mset f M \<Longrightarrow> filter_mset (\<lambda>y. f y \<noteq> k) (add_mset x M) = M"
  by (induction M) auto

subsection \<open>The shape of a run's trace\<close>

text \<open>
  Whatever the client answers, the calls \<^verbatim>\<open>Run\<close> issues are a non-empty prefix of its
  sequence, every call but the last succeeded, and the result is the last call's error
  wrapped under that call's prefix. The same holds of \<^verbatim>\<open>Cleanup\<close>.
\<close>

lemma Run_trace_shape:
  assumes "Run (recording c) (s, tr0) = (r, (s', tr), lg)"
  shows "\<exists>tr1. tr = tr0 @ tr1 \<and> prefix (map fst tr1) Run_calls \<and> tr1 \<noteq> [] \<and>
           (\<forall>e \<in> set (butlast tr1). snd e = None) \<and>
           (r = None \<longleftrightarrow> map fst tr1 = Run_calls \<and> snd (last tr1) = None) \<and>
           (\<forall>cl e. (cl, Some e) \<in> set tr1 \<longrightarrow>
              r = Some (Errorf (failure_prefix cl) e) \<and> last tr1 = (cl, Some e)) \<and>
           (\<forall>err. r = Some err \<longrightarrow> (\<exists>cl e. last tr1 = (cl, Some e) \<and> Unwrap err = Some e))"
  using assms
  by (auto simp: Run_def recording_simps record_sum_def Run_calls_def Let_def nsSpec_def
      split: prod.splits sum.splits)

lemma Cleanup_trace_shape:
  assumes "Cleanup (recording c) (s, tr0) = (r, (s', tr), lg)"
  shows "\<exists>tr1. tr = tr0 @ tr1 \<and> prefix (map fst tr1) Cleanup_calls \<and> tr1 \<noteq> [] \<and>
           (\<forall>e \<in> set (butlast tr1). snd e = None) \<and>
           (r = None \<longleftrightarrow> map fst tr1 = Cleanup_calls \<and> snd (last tr1) = None) \<and>
           (\<forall>cl e. (cl, Some e) \<in> set tr1 \<longrightarrow>
              r = Some (Errorf (failure_prefix cl) e) \<and> last tr1 = (cl, Some e)) \<and>
           (\<forall>err. r = Some err \<longrightarrow> (\<exists>cl e. last tr1 = (cl, Some e) \<and> Unwrap err = Some e))"
  using assms
  by (auto simp: Cleanup_def recording_simps record_opt_def Cleanup_calls_def Let_def
      split: prod.splits option.splits)

lemma distinct_Run_calls: "distinct Run_calls"
  by (simp add: Run_calls_def)

lemma distinct_Cleanup_calls: "distinct Cleanup_calls"
  by (simp add: Cleanup_calls_def)

lemma prefix_distinct: "prefix xs ys \<Longrightarrow> distinct ys \<Longrightarrow> distinct xs"
  by (auto simp: prefix_def)

lemma main_world:
  assumes "Run c s = (r1, s1, lg1)" and "Cleanup c s1 = (r2, s2, lg2)"
  shows "world (main (Inr cfg) (\<lambda>_. Inr c) s) = (if r1 = None then s2 else s1)"
  using assms by (cases r1; cases r2) (simp_all add: main_def)

lemma trace_complete:
  assumes "\<forall>err. r = Some err \<longrightarrow> (\<exists>cl e. last tr = (cl, Some e) \<and> Unwrap err = Some e)"
    and "r = None \<longleftrightarrow> map fst tr = calls \<and> snd (last tr) = None"
  shows "(snd (last tr) = None \<longrightarrow> map fst tr = calls) \<and> (r = None \<longleftrightarrow> snd (last tr) = None)"
  using assms by (cases r) auto

subsection \<open>Runs of the in-memory client\<close>

lemmas memory_defs =
  recording_simps record_sum_def record_opt_def memory_client_def small_cluster_def
  ready_cluster_def orphan_cluster_def half_done_cluster_def ns_only_cluster_def
  empty_cluster_def created_cluster_def empty_log_def
  small_log_def Run_trace_def Cleanup_trace_def ns_sort_key_def pod_sort_key_def
  kube_system_def default_ns_def nsSpec_def podSpec_def dns_pod_def edge_dns_pod_def web_pod_def
  namespaceName_def label_def ns_names_def
  pod_keys_def pod_key_def in_namespace_def selector_matches_def SimplePodFromPod_def

lemma Run_memory_small:
  "Run (recording memory_client) (small_cluster, []) = (None, (ready_cluster, Run_trace), small_log)"
  by (simp add: Run_def memory_defs)

lemma Cleanup_memory_ready:
  "Cleanup (recording memory_client) (ready_cluster, tr) =
     (None, (small_cluster, tr @ Cleanup_trace),
      [Info [] ''deleted hello-world pod'', Info [] ''deleted aerospike namespace''])"
  by (simp add: Cleanup_def memory_defs)

lemma Run_memory_empty_recorded:
  "Run (recording memory_client) (empty_cluster, []) = (None, (created_cluster, Run_trace), empty_log)"
  by (simp add: Run_def memory_defs)

lemma Cleanup_memory_created:
  "Cleanup (recording memory_client) (created_cluster, tr) =
     (None, (empty_cluster, tr @ Cleanup_trace),
      [Info [] ''deleted hello-world pod'', Info [] ''deleted aerospike namespace''])"
  by (simp add: Cleanup_def memory_defs)

lemma Run_memory_orphan:
  "Run (recording memory_client) (orphan_cluster, []) =
     (Some (Errorf ''failed to create pod'' AlreadyExists),
      (half_done_cluster,
       [(ListNamespaces, None), (CreateNamespace nsSpec, None),
        (CreatePod namespaceName podSpec, Some AlreadyExists)]),
      [Info [(''namespaces'', Strings [''kube-system''])] ''k8s namespaces'',
       Info [] ''created new namespace aerospike''])"
  by (simp add: Run_def memory_defs)

lemma Cleanup_memory_ns_only:
  "Cleanup (recording memory_client) (ns_only_cluster, []) =
     (Some (Errorf ''failed to delete pod'' NotFound),
      (ns_only_cluster, [(DeletePod namespaceName ''hello-world'', Some NotFound)]),
      [])"
  by (simp add: Cleanup_def memory_defs)

lemma Run_memory_small_plain:
  "Run memory_client small_cluster = (None, ready_cluster, small_log)"
  by (rule Run_recording[OF Run_memory_small])

lemma Cleanup_memory_ready_plain:
  "Cleanup memory_client ready_cluster =
     (None, small_cluster,
      [Info [] ''deleted hello-world pod'', Info [] ''deleted aerospike namespace''])"
  by (rule Cleanup_recording[OF Cleanup_memory_ready[of "[]"]])

lemma Run_memory_empty:
  "Run memory_client empty_cluster = (None, created_cluster, empty_log)"
  by (rule Run_recording[OF Run_memory_empty_recorded])

lemma small_cluster_fresh:
  "''aerospike'' \<notin># names_of (contents_of small_cluster)"
  "(''aerospike'', ''hello-world'') \<notin># keys_of (contents_of small_cluster)"
  by (simp_all add: small_cluster_def contents_of_def names_of_def keys_of_def pod_key_def
      kube_system_def default_ns_def dns_pod_def edge_dns_pod_def web_pod_def)

lemma empty_cluster_fresh:
  "''aerospike'' \<notin># names_of (contents_of empty_cluster)"
  "(''aerospike'', ''hello-world'') \<notin># keys_of (contents_of empty_cluster)"
  by (simp_all add: empty_cluster_def contents_of_def names_of_def keys_of_def)

lemma ns_only_cluster_no_pod:
  "(''aerospike'', ''hello-world'') \<notin># keys_of (contents_of ns_only_cluster)"
  by (simp add: ns_only_cluster_def contents_of_def keys_of_def pod_key_def dns_pod_def)

lemma ns_only_cluster_has_namespace:
  "''aerospike'' \<in> set (ns_names ns_only_cluster)"
  by (simp add: ns_only_cluster_def ns_names_def nsSpec_def namespaceName_def)

lemma half_done_cluster_has_namespace:
  "''aerospike'' \<in> set (ns_names half_done_cluster)"
  by (simp add: half_done_cluster_def ns_names_def nsSpec_def namespaceName_def)

lemma Pods_Delete_memory_ns_only:
  "Pods_Delete memory_client ''aerospike'' ''hello-world'' ns_only_cluster =
     (Some NotFound, ns_only_cluster)"
  by (simp add: memory_defs)

lemma created_cluster_hello_world:
  "filter_mset (\<lambda>q. pod_key q = (''aerospike'', ''hello-world''))
     (held_pods (contents_of created_cluster)) = {#podSpec#}"
  by (simp add: created_cluster_def contents_of_def pod_key_def podSpec_def namespaceName_def)

lemma ready_cluster_extends_small:
  "contents_of ready_cluster =
     \<lparr>held_namespaces = add_mset nsSpec (held_namespaces (contents_of small_cluster)),
      held_pods = add_mset podSpec (held_pods (contents_of small_cluster))\<rparr>"
  by (simp add: ready_cluster_def small_cluster_def contents_of_def)

lemma ready_cluster_dns_pods:
  "filter_mset (selector_matches ''k8s-app=kube-dns'') (held_pods (contents_of ready_cluster)) =
     {#dns_pod ''coredns-a'', edge_dns_pod#}"
  by (simp add: ready_cluster_def contents_of_def selector_matches_def dns_pod_def edge_dns_pod_def
      web_pod_def podSpec_def)

subsection \<open>One session of the watch subsystem\<close>

lemma informer_add_delete:
  "informer [] rv0 [Added p rv1, Deleted p rv2] [(h, f)] =
     ([], [Invocation h OnAdd [PodPtr (Some p)] (AddFunc f (PodPtr (Some p))),
           Invocation h OnDelete [PodPtr (Some p)] (DeleteFunc f (PodPtr (Some p)))])"
  by (simp add: informer_def Reflector_Run_def bootstrap_def enqueue_def Upsert_def Remove_def
      Get_def)

section \<open>The claims\<close>

subsection \<open>The order of the one-shot calls\<close>

text \<open>
  C1. For every client and every state, the calls \<^verbatim>\<open>Run\<close> issues are, in this order, list
  namespaces, create the namespace "aerospike", create the hello-world pod, and list the pods
  labelled \<^verbatim>\<open>k8s-app=kube-dns\<close>; the calls \<^verbatim>\<open>Cleanup\<close> issues are delete the pod, then delete
  the namespace. A run issues a non-empty prefix of its sequence, each call once; every call
  before the last one issued returned without error; a call that returned without error is
  followed by the next call of the sequence, so a run stops short of the whole sequence only
  at a call that failed; and the run returns \<^verbatim>\<open>nil\<close> exactly when its last call succeeded,
  which is when it issued the whole sequence. In \<^verbatim>\<open>main\<close>, \<^verbatim>\<open>Cleanup\<close> starts from the state
  and the trace that a successful \<^verbatim>\<open>Run\<close> left.
\<close>

theorem one_shot_sequence_in_order:
  assumes run: "Run (recording c) (s, []) = (r1, (s1, tr1), lg1)"
    and cleanup: "Cleanup (recording c) (s1, tr1) = (r2, (s2, tr2), lg2)"
  shows "prefix (map fst tr1) Run_calls \<and> tr1 \<noteq> [] \<and>
         (\<forall>e \<in> set (butlast tr1). snd e = None) \<and>
         (snd (last tr1) = None \<longrightarrow> map fst tr1 = Run_calls) \<and>
         (r1 = None \<longleftrightarrow> snd (last tr1) = None) \<and>
         (r1 = None \<longleftrightarrow> map fst tr1 = Run_calls \<and> snd (last tr1) = None) \<and>
         (\<exists>tr. tr2 = tr1 @ tr \<and> prefix (map fst tr) Cleanup_calls \<and> tr \<noteq> [] \<and>
               (\<forall>e \<in> set (butlast tr). snd e = None) \<and>
               (snd (last tr) = None \<longrightarrow> map fst tr = Cleanup_calls) \<and>
               (r2 = None \<longleftrightarrow> snd (last tr) = None) \<and>
               (r2 = None \<longleftrightarrow> map fst tr = Cleanup_calls \<and> snd (last tr) = None)) \<and>
         world (main (Inr cfg) (\<lambda>_. Inr (recording c)) (s, [])) =
           (if r1 = None then (s2, tr2) else (s1, tr1))"
proof -
  from Run_trace_shape[OF run] have p1: "prefix (map fst tr1) Run_calls" and p2: "tr1 \<noteq> []"
    and p3: "\<forall>e \<in> set (butlast tr1). snd e = None"
    and a1: "r1 = None \<longleftrightarrow> map fst tr1 = Run_calls \<and> snd (last tr1) = None"
    and a2: "\<forall>err. r1 = Some err \<longrightarrow> (\<exists>cl e. last tr1 = (cl, Some e) \<and> Unwrap err = Some e)"
    by simp_all
  note a3 = trace_complete[OF a2 a1]
  note p4 = conjunct1[OF a3] and p5 = conjunct2[OF a3]
  from Cleanup_trace_shape[OF cleanup] obtain tr where
    q0: "tr2 = tr1 @ tr" and q1: "prefix (map fst tr) Cleanup_calls" and q2: "tr \<noteq> []"
    and q3: "\<forall>e \<in> set (butlast tr). snd e = None"
    and b1: "r2 = None \<longleftrightarrow> map fst tr = Cleanup_calls \<and> snd (last tr) = None"
    and b2: "\<forall>err. r2 = Some err \<longrightarrow> (\<exists>cl e. last tr = (cl, Some e) \<and> Unwrap err = Some e)"
    by blast
  note b3 = trace_complete[OF b2 b1]
  note q4 = conjunct1[OF b3] and q5 = conjunct2[OF b3]
  have w: "world (main (Inr cfg) (\<lambda>_. Inr (recording c)) (s, [])) =
           (if r1 = None then (s2, tr2) else (s1, tr1))"
    by (rule main_world[OF run cleanup])
  have c: "\<exists>tr. tr2 = tr1 @ tr \<and> prefix (map fst tr) Cleanup_calls \<and> tr \<noteq> [] \<and>
               (\<forall>e \<in> set (butlast tr). snd e = None) \<and>
               (snd (last tr) = None \<longrightarrow> map fst tr = Cleanup_calls) \<and>
               (r2 = None \<longleftrightarrow> snd (last tr) = None) \<and>
               (r2 = None \<longleftrightarrow> map fst tr = Cleanup_calls \<and> snd (last tr) = None)"
    by (intro exI[of _ tr] conjI q0 q1 q2 q3 q4 q5 b1)
  show ?thesis by (intro conjI p1 p2 p3 p4 p5 a1 c w)
qed

theorem one_shot_sequence_in_order_witness:
  "Run (recording memory_client) (small_cluster, []) = (None, (ready_cluster, Run_trace), small_log) \<and>
   Cleanup (recording memory_client) (ready_cluster, Run_trace) =
     (None, (small_cluster, Run_trace @ Cleanup_trace),
      [Info [] ''deleted hello-world pod'', Info [] ''deleted aerospike namespace'']) \<and>
   Run (recording memory_client) (empty_cluster, []) = (None, (created_cluster, Run_trace), empty_log) \<and>
   Cleanup (recording memory_client) (created_cluster, Run_trace) =
     (None, (empty_cluster, Run_trace @ Cleanup_trace),
      [Info [] ''deleted hello-world pod'', Info [] ''deleted aerospike namespace'']) \<and>
   map fst Run_trace = Run_calls \<and>
   map fst Cleanup_trace = Cleanup_calls \<and>
   world (main (Inr ()) (\<lambda>_. Inr (recording memory_client)) (small_cluster, [])) =
     (small_cluster, Run_trace @ Cleanup_trace) \<and>
   world (main (Inr ()) (\<lambda>_. Inr (recording memory_client)) (empty_cluster, [])) =
     (empty_cluster, Run_trace @ Cleanup_trace)"
  using one_shot_sequence_in_order [OF Run_memory_small Cleanup_memory_ready, of "()"]
    one_shot_sequence_in_order [OF Run_memory_empty_recorded Cleanup_memory_created, of "()"]
    Run_memory_small Cleanup_memory_ready [of Run_trace]
    Run_memory_empty_recorded Cleanup_memory_created [of Run_trace]
  by (simp add: Run_trace_def Cleanup_trace_def Run_calls_def Cleanup_calls_def)

subsection \<open>A failing step ends the run\<close>

text \<open>
  C2. For every client and every state: if a call that \<^verbatim>\<open>Run\<close> issued failed with an error,
  then \<^verbatim>\<open>Run\<close> returns that error wrapped under the prefix that names the failing step, and
  the failing call is the last call of the run, so no later step is issued; no call of the
  sequence is issued twice. An error that \<^verbatim>\<open>Run\<close> returns always wraps the error of its last
  call. The same holds of \<^verbatim>\<open>Cleanup\<close>, and the six prefixes are pairwise different.
\<close>

theorem step_failure_aborts:
  assumes run: "Run (recording c) (s, []) = (r1, (s1, tr1), lg1)"
    and cleanup: "Cleanup (recording c) (t, []) = (r2, (t2, tr2), lg2)"
  shows "(\<forall>cl e. (cl, Some e) \<in> set tr1 \<longrightarrow>
            r1 = Some (Errorf (failure_prefix cl) e) \<and> last tr1 = (cl, Some e)) \<and>
         (\<forall>err. r1 = Some err \<longrightarrow> (\<exists>cl e. last tr1 = (cl, Some e) \<and> Unwrap err = Some e)) \<and>
         prefix (map fst tr1) Run_calls \<and> distinct (map fst tr1) \<and>
         (\<forall>cl e. (cl, Some e) \<in> set tr2 \<longrightarrow>
            r2 = Some (Errorf (failure_prefix cl) e) \<and> last tr2 = (cl, Some e)) \<and>
         (\<forall>err. r2 = Some err \<longrightarrow> (\<exists>cl e. last tr2 = (cl, Some e) \<and> Unwrap err = Some e)) \<and>
         prefix (map fst tr2) Cleanup_calls \<and> distinct (map fst tr2) \<and>
         distinct (map failure_prefix (Run_calls @ Cleanup_calls))"
proof -
  from Run_trace_shape[OF run] have a:
    "(\<forall>cl e. (cl, Some e) \<in> set tr1 \<longrightarrow>
            r1 = Some (Errorf (failure_prefix cl) e) \<and> last tr1 = (cl, Some e)) \<and>
     (\<forall>err. r1 = Some err \<longrightarrow> (\<exists>cl e. last tr1 = (cl, Some e) \<and> Unwrap err = Some e)) \<and>
     prefix (map fst tr1) Run_calls"
    by simp
  from Cleanup_trace_shape[OF cleanup] have b:
    "(\<forall>cl e. (cl, Some e) \<in> set tr2 \<longrightarrow>
            r2 = Some (Errorf (failure_prefix cl) e) \<and> last tr2 = (cl, Some e)) \<and>
     (\<forall>err. r2 = Some err \<longrightarrow> (\<exists>cl e. last tr2 = (cl, Some e) \<and> Unwrap err = Some e)) \<and>
     prefix (map fst tr2) Cleanup_calls"
    by simp
  have d1: "distinct (map fst tr1)" using a prefix_distinct distinct_Run_calls by blast
  have d2: "distinct (map fst tr2)" using b prefix_distinct distinct_Cleanup_calls by blast
  have d3: "distinct (map failure_prefix (Run_calls @ Cleanup_calls))"
    by (simp add: Run_calls_def Cleanup_calls_def nsSpec_def namespaceName_def label_def)
  from a b d1 d2 d3 show ?thesis by blast
qed

theorem step_failure_aborts_witness:
  "Run (recording memory_client) (orphan_cluster, []) =
     (Some (Errorf (failure_prefix (CreatePod namespaceName podSpec)) AlreadyExists),
      (half_done_cluster,
       [(ListNamespaces, None), (CreateNamespace nsSpec, None),
        (CreatePod namespaceName podSpec, Some AlreadyExists)]),
      [Info [(''namespaces'', Strings [''kube-system''])] ''k8s namespaces'',
       Info [] ''created new namespace aerospike'']) \<and>
   Cleanup (recording memory_client) (ns_only_cluster, []) =
     (Some (Errorf (failure_prefix (DeletePod namespaceName ''hello-world'')) NotFound),
      (ns_only_cluster, [(DeletePod namespaceName ''hello-world'', Some NotFound)]),
      []) \<and>
   distinct (map failure_prefix (Run_calls @ Cleanup_calls))"
  using step_failure_aborts [OF Run_memory_orphan Cleanup_memory_ns_only]
    Run_memory_orphan Cleanup_memory_ns_only
  by simp

subsection \<open>What a successful run creates\<close>

text \<open>
  C3. For a client whose listings and creations keep the contract: starting from a cluster
  with no namespace "aerospike" and no pod "hello-world" in it, after \<^verbatim>\<open>Run\<close> returns \<^verbatim>\<open>nil\<close>
  the cluster holds the namespace "aerospike" (once) and exactly one pod with the identity
  (aerospike, hello-world), whose spec has exactly one container, with image "hello-world".
  The contract asks no order of a listing: it holds of a client that lists sorted.
\<close>

theorem Run_creates_namespace_and_pod:
  assumes nl: "Namespaces_List_law c view"
    and nc: "Namespaces_Create_law c view"
    and pc: "Pods_Create_law c view"
    and pl: "Pods_List_law c view matches"
    and no_ns: "''aerospike'' \<notin># names_of (view s)"
    and no_pod: "(''aerospike'', ''hello-world'') \<notin># keys_of (view s)"
    and run: "Run c s = (None, s', lg)"
  shows "count (names_of (view s')) ''aerospike'' = 1 \<and>
         (\<exists>p. filter_mset (\<lambda>q. pod_key q = (''aerospike'', ''hello-world'')) (held_pods (view s')) = {#p#} \<and>
              map container_Image (Containers (pod_Spec p)) = [''hello-world''])"
proof -
  from Run_success_view(3)[OF nl nc pc pl run]
  have v: "view s' = \<lparr>held_namespaces = add_mset nsSpec (held_namespaces (view s)),
                      held_pods = add_mset podSpec (held_pods (view s))\<rparr>" .
  have "count (names_of (view s)) ''aerospike'' = 0"
    using no_ns by (simp add: not_in_iff)
  then have a: "count (names_of (view s')) ''aerospike'' = 1"
    using v by (simp add: names_of_def nsSpec_def namespaceName_def)
  have "filter_mset (\<lambda>q. pod_key q = (''aerospike'', ''hello-world'')) (held_pods (view s)) = {#}"
    using no_pod unfolding keys_of_def by (rule filter_mset_absent_key)
  then have b: "filter_mset (\<lambda>q. pod_key q = (''aerospike'', ''hello-world'')) (held_pods (view s'))
                = {#podSpec#}"
    using v by (simp add: pod_key_def podSpec_def namespaceName_def)
  have c: "map container_Image (Containers (pod_Spec podSpec)) = [''hello-world'']"
    by (simp add: podSpec_def)
  show ?thesis
  proof (intro conjI exI)
    show "count (names_of (view s')) ''aerospike'' = 1" by (rule a)
    show "filter_mset (\<lambda>q. pod_key q = (''aerospike'', ''hello-world'')) (held_pods (view s'))
          = {#podSpec#}"
      by (rule b)
    show "map container_Image (Containers (pod_Spec podSpec)) = [''hello-world'']" by (rule c)
  qed
qed

theorem Run_creates_namespace_and_pod_witness:
  "Namespaces_List_law memory_client contents_of \<and>
   Namespaces_Create_law memory_client contents_of \<and>
   Pods_Create_law memory_client contents_of \<and>
   Pods_List_law memory_client contents_of selector_matches \<and>
   ''aerospike'' \<notin># names_of (contents_of empty_cluster) \<and>
   (''aerospike'', ''hello-world'') \<notin># keys_of (contents_of empty_cluster) \<and>
   Run memory_client empty_cluster = (None, created_cluster, empty_log) \<and>
   count (names_of (contents_of created_cluster)) ''aerospike'' = 1 \<and>
   filter_mset (\<lambda>q. pod_key q = (''aerospike'', ''hello-world''))
     (held_pods (contents_of created_cluster)) = {#podSpec#} \<and>
   map container_Image (Containers (pod_Spec podSpec)) = [''hello-world'']"
  using Run_creates_namespace_and_pod
    [OF memory_Namespaces_List_law memory_Namespaces_Create_law memory_Pods_Create_law
        memory_Pods_List_law empty_cluster_fresh Run_memory_empty]
    memory_Namespaces_List_law memory_Namespaces_Create_law memory_Pods_Create_law
    memory_Pods_List_law empty_cluster_fresh Run_memory_empty created_cluster_hello_world
  by simp

subsection \<open>The namespace listing before and after the creation\<close>

text \<open>
  C4. For a client whose listings and creations keep the contract, and a cluster in which
  the namespace "aerospike" does not exist: the first call of \<^verbatim>\<open>Run\<close> is the namespace
  listing; when it succeeds, \<^verbatim>\<open>Run\<close> logs the names it returned first, these are the names
  of the cluster's namespaces before the run, in some order, and "aerospike" is not among
  them; and in every run whose creation step succeeded, whether the run then succeeds or
  fails at a later step, the cluster it leaves holds "aerospike" exactly once, and so does
  every namespace listing that succeeds on it.
\<close>

theorem namespace_listing_before_and_after:
  assumes nl: "Namespaces_List_law c view"
    and nc: "Namespaces_Create_law c view"
    and pc: "Pods_Create_law c view"
    and pl: "Pods_List_law c view matches"
    and absent: "''aerospike'' \<notin># names_of (view s)"
    and run: "Run (recording c) (s, []) = (r, (s', tr), lg)"
  shows "fst (hd tr) = ListNamespaces \<and>
         ((ListNamespaces, None) \<in> set tr \<longrightarrow>
            (\<exists>l. lg \<noteq> [] \<and> hd lg = Info [(''namespaces'', Strings l)] ''k8s namespaces'')) \<and>
         (\<forall>l m. Info [(''namespaces'', Strings l)] m \<in> set lg \<longrightarrow>
            mset l = names_of (view s) \<and> ''aerospike'' \<notin> set l) \<and>
         ((CreateNamespace nsSpec, None) \<in> set tr \<longrightarrow>
            count (names_of (view s')) ''aerospike'' = 1 \<and>
            (\<forall>l t. Namespaces_List c s' = (Inr l, t) \<longrightarrow>
               count_list (map (\<lambda>ns. meta_Name (ns_ObjectMeta ns)) l) ''aerospike'' = 1))"
proof (intro conjI impI allI)
  from Run_first_line[OF run] show "fst (hd tr) = ListNamespaces" by simp
next
  assume "(ListNamespaces, None) \<in> set tr"
  with Run_first_line[OF run]
  show "\<exists>l. lg \<noteq> [] \<and> hd lg = Info [(''namespaces'', Strings l)] ''k8s namespaces''" by simp
next
  fix l m
  assume "Info [(''namespaces'', Strings l)] m \<in> set lg"
  with Run_log_namespaces[OF nl Run_recording[OF run]]
  show l: "mset l = names_of (view s)" by blast
  with absent have "''aerospike'' \<notin># mset l" by simp
  then show "''aerospike'' \<notin> set l" by simp
next
  assume created: "(CreateNamespace nsSpec, None) \<in> set tr"
  from Run_namespaces_after_create[OF nl nc pc pl run created]
  have v: "held_namespaces (view s') = add_mset nsSpec (held_namespaces (view s))" by simp
  have z: "count (names_of (view s)) ''aerospike'' = 0"
    using absent by (simp add: not_in_iff)
  from v z show one: "count (names_of (view s')) ''aerospike'' = 1"
    by (simp add: names_of_def nsSpec_def namespaceName_def)
  fix l t
  assume "Namespaces_List c s' = (Inr l, t)"
  from Namespaces_ListD[OF nl this] have l': "mset l = held_namespaces (view s')" by simp
  have "mset (map (\<lambda>ns. meta_Name (ns_ObjectMeta ns)) l) = names_of (view s')"
    unfolding names_of_def l'[symmetric] by simp
  with one show "count_list (map (\<lambda>ns. meta_Name (ns_ObjectMeta ns)) l) ''aerospike'' = 1"
    by (simp flip: count_mset)
qed

theorem namespace_listing_before_and_after_witness:
  "Namespaces_List_law memory_client contents_of \<and>
   Namespaces_Create_law memory_client contents_of \<and>
   Pods_Create_law memory_client contents_of \<and>
   Pods_List_law memory_client contents_of selector_matches \<and>
   ''aerospike'' \<notin># names_of (contents_of small_cluster) \<and>
   Run (recording memory_client) (small_cluster, []) = (None, (ready_cluster, Run_trace), small_log) \<and>
   hd small_log = Info [(''namespaces'', Strings [''default'', ''kube-system''])] ''k8s namespaces'' \<and>
   (CreateNamespace nsSpec, None) \<in> set Run_trace \<and>
   count (names_of (contents_of ready_cluster)) ''aerospike'' = 1 \<and>
   Namespaces_List memory_client ready_cluster =
     (Inr [nsSpec, default_ns, kube_system], ready_cluster)"
  using namespace_listing_before_and_after
    [OF memory_Namespaces_List_law memory_Namespaces_Create_law memory_Pods_Create_law
        memory_Pods_List_law small_cluster_fresh(1) Run_memory_small]
    memory_Namespaces_List_law memory_Namespaces_Create_law memory_Pods_Create_law
    memory_Pods_List_law small_cluster_fresh(1) Run_memory_small
  by (simp add: Run_trace_def small_log_def memory_client_def ready_cluster_def ns_sort_key_def
      kube_system_def default_ns_def nsSpec_def namespaceName_def)

subsection \<open>A callback and a tombstone\<close>

text \<open>
  C5. A callback should complete for every payload the informer delivers, a tombstone
  included. \<^verbatim>\<open>onPodDelete\<close> does not: it asserts \<^verbatim>\<open>pod.(*v1.Pod)\<close> without the comma-ok form,
  so on a \<^verbatim>\<open>cache.DeletedFinalStateUnknown\<close> payload it panics, and nothing in the repository
  recovers from the panic. On a non-nil \<^verbatim>\<open>*v1.Pod\<close> each callback logs its line.
\<close>

theorem onPodDelete_tombstone_panics:
  "onPodDelete (DeletedFinalStateUnknown ''aerospike/hello-world'' (Some podSpec)) =
     Inl InterfaceConversion"
  by (simp add: onPodDelete_def)

lemma callbacks_on_pods:
  "onPodAdd (PodPtr (Some p)) =
     Inr (Info [(''pod'', OnePod (SimplePodFromPod p))] ''informer received pod creation event'')"
  "onPodUpdate (PodPtr (Some p)) (PodPtr (Some q)) =
     Inr (Info [(''old'', OnePod (SimplePodFromPod p)), (''new'', OnePod (SimplePodFromPod q))]
            ''informer received pod updated event'')"
  "onPodDelete (PodPtr (Some p)) =
     Inr (Info [(''pod'', OnePod (SimplePodFromPod p))] ''informer received pod deletion event'')"
  by (simp_all add: onPodAdd_def onPodUpdate_def onPodDelete_def)

subsection \<open>One add and one delete\<close>

text \<open>
  C6. In the watch subsystem of the specification, with the callbacks of main.go registered:
  starting from an empty collection, when the stream delivers the creation of a pod and then
  its deletion, the callbacks invoked are exactly one \<open>onAdd\<close>, handed that pod (and with it
  its identity and its image), and then exactly one \<open>onDelete\<close>, handed the same pod, and the
  Local Store is empty afterwards. \<^verbatim>\<open>onPodAdd\<close> and \<^verbatim>\<open>onPodDelete\<close> each return the line they
  log, which names the pod by name and namespace.
\<close>

theorem one_add_one_delete:
  "informer [] rv0 [Added p rv1, Deleted p rv2] [(h, podEventHandlers)] =
     ([],
      [Invocation h OnAdd [PodPtr (Some p)]
         (Inr (Info [(''pod'', OnePod \<lparr>Name = meta_Name (pod_ObjectMeta p),
                                       Namespace = meta_Namespace (pod_ObjectMeta p)\<rparr>)]
                 ''informer received pod creation event'')),
       Invocation h OnDelete [PodPtr (Some p)]
         (Inr (Info [(''pod'', OnePod \<lparr>Name = meta_Name (pod_ObjectMeta p),
                                       Namespace = meta_Namespace (pod_ObjectMeta p)\<rparr>)]
                 ''informer received pod deletion event''))]) \<and>
   length (filter (\<lambda>i. callback_of i = OnAdd)
     (snd (informer [] rv0 [Added p rv1, Deleted p rv2] [(h, podEventHandlers)]))) = 1 \<and>
   length (filter (\<lambda>i. callback_of i = OnDelete)
     (snd (informer [] rv0 [Added p rv1, Deleted p rv2] [(h, podEventHandlers)]))) = 1 \<and>
   Store_List (fst (informer [] rv0 [Added p rv1, Deleted p rv2] [(h, podEventHandlers)])) = []"
  by (simp add: informer_add_delete podEventHandlers_def onPodAdd_def onPodDelete_def
      SimplePodFromPod_def Store_List_def)

theorem one_add_one_delete_witness:
  "informer [] 0 [Added podSpec 1, Deleted podSpec 2] [(0, podEventHandlers)] =
     ([],
      [Invocation 0 OnAdd [PodPtr (Some podSpec)]
         (Inr (Info [(''pod'', OnePod \<lparr>Name = ''hello-world'', Namespace = ''aerospike''\<rparr>)]
                 ''informer received pod creation event'')),
       Invocation 0 OnDelete [PodPtr (Some podSpec)]
         (Inr (Info [(''pod'', OnePod \<lparr>Name = ''hello-world'', Namespace = ''aerospike''\<rparr>)]
                 ''informer received pod deletion event''))]) \<and>
   pod_key podSpec = (''aerospike'', ''hello-world'') \<and>
   map container_Image (Containers (pod_Spec podSpec)) = [''hello-world'']"
  using one_add_one_delete [of 0 podSpec 1 2 0]
  by (simp add: podSpec_def pod_key_def namespaceName_def)

subsection \<open>Cleanup when the pod is absent\<close>

text \<open>
  C7. For every client: if the pod deletion of \<^verbatim>\<open>Cleanup\<close> returns an error, \<^verbatim>\<open>Cleanup\<close>
  returns that error wrapped under "failed to delete pod", the pod deletion is the only call
  issued (the namespace deletion is not), and the world is as the failed call left it. For a
  client whose pod deletion keeps the contract: if the pod "hello-world" does not exist in
  the namespace "aerospike" when \<^verbatim>\<open>Cleanup\<close> runs, that error is \<open>NotFound\<close> and the cluster is
  unchanged, so the namespace remains.
\<close>

theorem Cleanup_pod_absent:
  assumes cleanup: "Cleanup (recording c) (s, []) = (r, (s', tr), lg)"
  shows "(\<forall>e s1. Pods_Delete c ''aerospike'' ''hello-world'' s = (Some e, s1) \<longrightarrow>
            r = Some (Errorf ''failed to delete pod'' e) \<and>
            tr = [(DeletePod ''aerospike'' ''hello-world'', Some e)] \<and>
            s' = s1 \<and> lg = []) \<and>
         (Pods_Delete_law c view \<longrightarrow> (''aerospike'', ''hello-world'') \<notin># keys_of (view s) \<longrightarrow>
            r = Some (Errorf ''failed to delete pod'' NotFound) \<and>
            tr = [(DeletePod ''aerospike'' ''hello-world'', Some NotFound)] \<and>
            view s' = view s \<and> lg = [])"
proof (intro conjI allI impI)
  fix e s1
  assume d: "Pods_Delete c ''aerospike'' ''hello-world'' s = (Some e, s1)"
  with cleanup
  have "r = Some (Errorf ''failed to delete pod'' e) \<and>
        tr = [(DeletePod ''aerospike'' ''hello-world'', Some e)] \<and> s' = s1 \<and> lg = []"
    by (simp add: Cleanup_def recording_simps record_opt_def namespaceName_def)
  then show "r = Some (Errorf ''failed to delete pod'' e)"
    and "tr = [(DeletePod ''aerospike'' ''hello-world'', Some e)]"
    and "s' = s1" and "lg = []"
    by simp_all
next
  assume law: "Pods_Delete_law c view"
    and absent: "(''aerospike'', ''hello-world'') \<notin># keys_of (view s)"
  obtain r1 s1 where c1: "Pods_Delete c ''aerospike'' ''hello-world'' s = (r1, s1)"
    by (cases "Pods_Delete c ''aerospike'' ''hello-world'' s")
  from Pods_DeleteD[OF law c1] absent have r1: "r1 = Some NotFound" and v: "view s1 = view s"
    by simp_all
  from cleanup c1 r1 v
  have "r = Some (Errorf ''failed to delete pod'' NotFound) \<and>
        tr = [(DeletePod ''aerospike'' ''hello-world'', Some NotFound)] \<and>
        view s' = view s \<and> lg = []"
    by (simp add: Cleanup_def recording_simps record_opt_def namespaceName_def)
  then show "r = Some (Errorf ''failed to delete pod'' NotFound)"
    and "tr = [(DeletePod ''aerospike'' ''hello-world'', Some NotFound)]"
    and "view s' = view s" and "lg = []"
    by simp_all
qed

theorem Cleanup_pod_absent_witness:
  "Pods_Delete_law memory_client contents_of \<and>
   (''aerospike'', ''hello-world'') \<notin># keys_of (contents_of ns_only_cluster) \<and>
   Pods_Delete memory_client ''aerospike'' ''hello-world'' ns_only_cluster =
     (Some NotFound, ns_only_cluster) \<and>
   Cleanup (recording memory_client) (ns_only_cluster, []) =
     (Some (Errorf ''failed to delete pod'' NotFound),
      (ns_only_cluster, [(DeletePod ''aerospike'' ''hello-world'', Some NotFound)]), []) \<and>
   ''aerospike'' \<in> set (ns_names ns_only_cluster)"
  using Cleanup_pod_absent [OF Cleanup_memory_ns_only, of contents_of]
    memory_Pods_Delete_law ns_only_cluster_no_pod Pods_Delete_memory_ns_only
    Cleanup_memory_ns_only ns_only_cluster_has_namespace
  by simp

subsection \<open>The label query\<close>

text \<open>
  C8. For a client whose listings and creations keep the contract, and every cluster state:
  the last call of a successful \<^verbatim>\<open>Run\<close> lists pods with the empty namespace argument (every
  namespace) and the selector \<^verbatim>\<open>k8s-app=kube-dns\<close>, and the pods \<^verbatim>\<open>Run\<close> reports are the pods
  of the cluster, of any namespace, that match the selector, each reported exactly once, as
  the pair of its own name and its own namespace; the cluster queried is the one before the
  run with the hello-world pod added.
\<close>

theorem label_query_cluster_wide:
  assumes nl: "Namespaces_List_law c view"
    and nc: "Namespaces_Create_law c view"
    and pc: "Pods_Create_law c view"
    and pl: "Pods_List_law c view matches"
    and run: "Run (recording c) (s, []) = (None, (s', tr), lg)"
  shows "last tr = (ListPods '''' ''k8s-app=kube-dns'', None) \<and>
         (\<exists>reported.
            last lg = Info [(''pods'', SimplePods reported)] ''pods with label k8s-app=kube-dns'' \<and>
            mset reported =
              image_mset (\<lambda>p. \<lparr>Name = meta_Name (pod_ObjectMeta p),
                               Namespace = meta_Namespace (pod_ObjectMeta p)\<rparr>)
                (filter_mset (matches ''k8s-app=kube-dns'') (held_pods (view s')))) \<and>
         held_pods (view s') = add_mset podSpec (held_pods (view s))"
proof -
  from Run_trace_shape[OF run] have "map fst tr = Run_calls" and l: "snd (last tr) = None" and "tr \<noteq> []"
    by auto
  then have "fst (last tr) = ListPods '''' label"
    by (metis Run_calls_def last.simps last_map list.distinct(1))
  with l have a: "last tr = (ListPods '''' ''k8s-app=kube-dns'', None)"
    by (simp add: label_def prod_eq_iff)
  note r = Run_recording[OF run]
  from Run_success_view(4)[OF nl nc pc pl r] obtain ps where
    lg: "last lg = Info [(''pods'', SimplePods (map SimplePodFromPod ps))]
                     ''pods with label k8s-app=kube-dns''"
    and ps: "mset ps = filter_mset (matches ''k8s-app=kube-dns'') (held_pods (view s'))"
    by (auto simp: label_def)
  have "mset (map SimplePodFromPod ps) =
          image_mset (\<lambda>p. \<lparr>Name = meta_Name (pod_ObjectMeta p),
                           Namespace = meta_Namespace (pod_ObjectMeta p)\<rparr>) (mset ps)"
    by (simp add: SimplePodFromPod_def cong: image_mset_cong)
  with ps have m: "mset (map SimplePodFromPod ps) =
          image_mset (\<lambda>p. \<lparr>Name = meta_Name (pod_ObjectMeta p),
                           Namespace = meta_Namespace (pod_ObjectMeta p)\<rparr>)
            (filter_mset (matches ''k8s-app=kube-dns'') (held_pods (view s')))"
    by simp
  from Run_success_view(3)[OF nl nc pc pl r]
  have c: "held_pods (view s') = add_mset podSpec (held_pods (view s))"
    by simp
  show ?thesis
  proof (intro conjI exI)
    show "last tr = (ListPods '''' ''k8s-app=kube-dns'', None)" by (rule a)
    show "last lg = Info [(''pods'', SimplePods (map SimplePodFromPod ps))]
                     ''pods with label k8s-app=kube-dns''" by (rule lg)
    show "mset (map SimplePodFromPod ps) =
          image_mset (\<lambda>p. \<lparr>Name = meta_Name (pod_ObjectMeta p),
                           Namespace = meta_Namespace (pod_ObjectMeta p)\<rparr>)
            (filter_mset (matches ''k8s-app=kube-dns'') (held_pods (view s')))" by (rule m)
    show "held_pods (view s') = add_mset podSpec (held_pods (view s))" by (rule c)
  qed
qed

theorem label_query_cluster_wide_witness:
  "Namespaces_List_law memory_client contents_of \<and>
   Namespaces_Create_law memory_client contents_of \<and>
   Pods_Create_law memory_client contents_of \<and>
   Pods_List_law memory_client contents_of selector_matches \<and>
   Run (recording memory_client) (small_cluster, []) = (None, (ready_cluster, Run_trace), small_log) \<and>
   last Run_trace = (ListPods '''' ''k8s-app=kube-dns'', None) \<and>
   last small_log =
     Info [(''pods'', SimplePods [\<lparr>Name = ''edge-dns'', Namespace = ''default''\<rparr>,
                                 \<lparr>Name = ''coredns-a'', Namespace = ''kube-system''\<rparr>])]
       ''pods with label k8s-app=kube-dns'' \<and>
   filter_mset (selector_matches ''k8s-app=kube-dns'') (held_pods (contents_of ready_cluster)) =
     {#dns_pod ''coredns-a'', edge_dns_pod#} \<and>
   held_pods (contents_of ready_cluster) = add_mset podSpec (held_pods (contents_of small_cluster))"
  using label_query_cluster_wide
    [OF memory_Namespaces_List_law memory_Namespaces_Create_law memory_Pods_Create_law
        memory_Pods_List_law Run_memory_small]
    memory_Namespaces_List_law memory_Namespaces_Create_law memory_Pods_Create_law
    memory_Pods_List_law Run_memory_small ready_cluster_dns_pods
  by (simp add: small_log_def)

subsection \<open>A failed run is not cleaned up\<close>

text \<open>
  C9. For every client and every state: if \<^verbatim>\<open>Run\<close> returns an error, \<^verbatim>\<open>main\<close> logs it at the
  fatal level and the process ends with status 1; the state of the world at exit is the
  state \<^verbatim>\<open>Run\<close> left and the calls issued are those of \<^verbatim>\<open>Run\<close>, none of them a call of
  \<^verbatim>\<open>Cleanup\<close>. So what the run created before it failed stays.
\<close>

theorem failed_Run_skips_Cleanup:
  assumes run: "Run (recording c) (s, []) = (Some err, (s1, tr), lg)"
  shows "exit_status (main (Inr cfg) (\<lambda>_. Inr (recording c)) (s, [])) = 1 \<and>
         world (main (Inr cfg) (\<lambda>_. Inr (recording c)) (s, [])) = (s1, tr) \<and>
         logged (main (Inr cfg) (\<lambda>_. Inr (recording c)) (s, [])) =
           Info [] ''connecting to K8s'' # lg @
             [Fatal [(''error'', Err err)] ''failed to run Aerospike Code Challenge''] \<and>
         (\<forall>cl \<in> set (map fst tr). cl \<in> set Run_calls \<and> cl \<notin> set Cleanup_calls)"
proof -
  have m: "main (Inr cfg) (\<lambda>_. Inr (recording c)) (s, []) =
        \<lparr>exit_status = 1, world = (s1, tr),
         logged = [Info [] ''connecting to K8s''] @ lg @
           [Fatal [(''error'', Err err)] ''failed to run Aerospike Code Challenge'']\<rparr>"
    using run by (simp add: main_def)
  from Run_trace_shape[OF run] have "prefix (map fst tr) Run_calls" by simp
  then have "set (map fst tr) \<subseteq> set Run_calls" by (rule set_mono_prefix)
  moreover have "set Run_calls \<inter> set Cleanup_calls = {}"
    by (simp add: Run_calls_def Cleanup_calls_def)
  ultimately have "\<forall>cl \<in> set (map fst tr). cl \<in> set Run_calls \<and> cl \<notin> set Cleanup_calls"
    by blast
  with m show ?thesis by simp
qed

theorem failed_Run_skips_Cleanup_witness:
  "Run (recording memory_client) (orphan_cluster, []) =
     (Some (Errorf ''failed to create pod'' AlreadyExists),
      (half_done_cluster,
       [(ListNamespaces, None), (CreateNamespace nsSpec, None),
        (CreatePod namespaceName podSpec, Some AlreadyExists)]),
      [Info [(''namespaces'', Strings [''kube-system''])] ''k8s namespaces'',
       Info [] ''created new namespace aerospike'']) \<and>
   exit_status (main (Inr ()) (\<lambda>_. Inr (recording memory_client)) (orphan_cluster, [])) = 1 \<and>
   world (main (Inr ()) (\<lambda>_. Inr (recording memory_client)) (orphan_cluster, [])) =
     (half_done_cluster,
      [(ListNamespaces, None), (CreateNamespace nsSpec, None),
       (CreatePod namespaceName podSpec, Some AlreadyExists)]) \<and>
   ''aerospike'' \<in> set (ns_names half_done_cluster)"
  using failed_Run_skips_Cleanup [OF Run_memory_orphan, of "()"]
    Run_memory_orphan half_done_cluster_has_namespace
  by simp

subsection \<open>The frame of a run and its cleanup\<close>

text \<open>
  C10. For a client that keeps the contract: a successful \<^verbatim>\<open>Run\<close> followed by a
  successful \<^verbatim>\<open>Cleanup\<close> issues the six calls of the two sequences and no other, so the
  only objects it asks the cluster to change are the namespace "aerospike" and the pod
  "hello-world" in it. After the \<^verbatim>\<open>Run\<close> the cluster holds what it held before the run and
  that namespace and that pod, and nothing else changed; after the \<^verbatim>\<open>Cleanup\<close> it holds
  again what it held before the run: every other namespace and every other pod is as it was.
\<close>

theorem Run_Cleanup_frame:
  assumes rc: "resource_client c view matches"
    and run: "Run (recording c) (s, []) = (None, (s1, tr1), lg1)"
    and cleanup: "Cleanup (recording c) (s1, tr1) = (None, (s2, tr2), lg2)"
  shows "map fst tr2 = Run_calls @ Cleanup_calls \<and>
         view s1 = \<lparr>held_namespaces = add_mset nsSpec (held_namespaces (view s)),
                    held_pods = add_mset podSpec (held_pods (view s))\<rparr> \<and>
         view s2 = view s"
proof -
  from rc have nl: "Namespaces_List_law c view" and nc: "Namespaces_Create_law c view"
    and nd: "Namespaces_Delete_law c view" and pc: "Pods_Create_law c view"
    and pl: "Pods_List_law c view matches" and pd: "Pods_Delete_law c view"
    by (simp_all add: resource_client_def)
  from Run_trace_shape[OF run] have t1: "map fst tr1 = Run_calls" by simp
  from Cleanup_trace_shape[OF cleanup] obtain tr where "tr2 = tr1 @ tr" and "map fst tr = Cleanup_calls"
    by auto
  with t1 have t: "map fst tr2 = Run_calls @ Cleanup_calls" by simp
  note run' = Run_recording[OF run]
  note cleanup' = Cleanup_recording[OF cleanup]
  note v1 = Run_success_view(3)[OF nl nc pc pl run']
  note n1 = Run_success_view(1)[OF nl nc pc pl run']
  note n2 = Run_success_view(2)[OF nl nc pc pl run']
  note v2 = Cleanup_success_view[OF pd nd cleanup']
  have a: "filter_mset (\<lambda>ns. meta_Name (ns_ObjectMeta ns) \<noteq> namespaceName)
             (add_mset nsSpec (held_namespaces (view s))) = held_namespaces (view s)"
    using n1 unfolding names_of_def by (intro filter_mset_out_added) (simp_all add: nsSpec_def)
  have b: "filter_mset (\<lambda>p. pod_key p \<noteq> (namespaceName, ''hello-world''))
             (add_mset podSpec (held_pods (view s))) = held_pods (view s)"
    using n2 unfolding keys_of_def
    by (intro filter_mset_out_added) (simp_all add: podSpec_def pod_key_def)
  from v1 v2 a b have "view s2 = view s" by simp
  with t v1 show ?thesis by (intro conjI)
qed

theorem Run_Cleanup_frame_witness:
  "resource_client memory_client contents_of selector_matches \<and>
   Run (recording memory_client) (small_cluster, []) = (None, (ready_cluster, Run_trace), small_log) \<and>
   Cleanup (recording memory_client) (ready_cluster, Run_trace) =
     (None, (small_cluster, Run_trace @ Cleanup_trace),
      [Info [] ''deleted hello-world pod'', Info [] ''deleted aerospike namespace'']) \<and>
   map fst (Run_trace @ Cleanup_trace) = Run_calls @ Cleanup_calls \<and>
   contents_of ready_cluster =
     \<lparr>held_namespaces = add_mset nsSpec (held_namespaces (contents_of small_cluster)),
      held_pods = add_mset podSpec (held_pods (contents_of small_cluster))\<rparr>"
  using Run_Cleanup_frame
    [OF memory_client_resource_client Run_memory_small Cleanup_memory_ready]
    memory_client_resource_client Run_memory_small Cleanup_memory_ready [of Run_trace]
  by simp

end
